theory Spec2Isabelle
  imports Complex_Main
begin

section \<open>ModelTrainer: a shallow embedding of \<^verbatim>\<open>ModelTrainer.cpp\<close>\<close>

text \<open>
  The embedding follows \<^verbatim>\<open>src/gptk/libgptk/optimisation/ModelTrainer.cpp\<close> function by
  function. Conventions:
  \<^item> a \<^verbatim>\<open>double\<close> is a \<^typ>\<open>real\<close>: rounding and overflow are not modelled. The one place
    where finite operands produce a special value, the division in the parabolic
    extrapolation of \<^verbatim>\<open>bracketMinimum\<close>, is written out with its IEEE-754 result;
  \<^item> an IT++ \<^verbatim>\<open>vec\<close> is a \<^typ>\<open>real list\<close>, a \<^verbatim>\<open>bvec\<close> a \<^typ>\<open>bool list\<close>; element access
    outside the vector and arithmetic on vectors of different sizes, which the
    library's assertions reject, are errors;
  \<^item> the trainer object and the model it refers to form one state record, passed to
    every member function and returned updated;
  \<^item> a member function returns \<open>error + (result \<times> state)\<close>; a loop without an
    iteration cap additionally returns \<open>None\<close> when it runs forever;
  \<^item> of the text written to \<^verbatim>\<open>cout\<close> only the table of \<^verbatim>\<open>checkGradient\<close> is kept,
    as its result.
\<close>

subsection \<open>Vectors\<close>

datatype error =
    IndexOutOfRange
  | SizeMismatch
  | AssertionFailed
  | PreconditionViolation

type_synonym vec = "real list"
type_synonym bvec = "bool list"

text \<open>\<^verbatim>\<open>v(i)\<close> as an rvalue, with the index an \<^verbatim>\<open>int\<close>.\<close>

definition vec_get :: "'a list \<Rightarrow> int \<Rightarrow> error + 'a" where
  "vec_get v i = (if 0 \<le> i \<and> i < int (length v) then Inr (v ! nat i) else Inl IndexOutOfRange)"

text \<open>\<^verbatim>\<open>v(i) = x\<close>.\<close>

definition vec_set :: "'a list \<Rightarrow> int \<Rightarrow> 'a \<Rightarrow> error + 'a list" where
  "vec_set v i x = (if 0 \<le> i \<and> i < int (length v) then Inr (v[nat i := x]) else Inl IndexOutOfRange)"

text \<open>\<^verbatim>\<open>v1 + v2\<close> and \<^verbatim>\<open>s * v\<close>.\<close>

definition vec_add :: "vec \<Rightarrow> vec \<Rightarrow> error + vec" where
  "vec_add v1 v2 = (if length v1 = length v2 then Inr (map2 (+) v1 v2) else Inl SizeMismatch)"

definition vec_scale :: "real \<Rightarrow> vec \<Rightarrow> vec" where
  "vec_scale s v = map ((*) s) v"

subsection \<open>The model and the trainer\<close>

text \<open>
  Modelled from the spec: the class \<^verbatim>\<open>Optimisable\<close> is declared outside the sources. The
  spec gives its contract: the model holds a full parameter vector;
  \<^verbatim>\<open>objective()\<close> and \<^verbatim>\<open>gradient()\<close> are evaluated at the current parameter values;
  \<^verbatim>\<open>setParametersVector\<close> installs a new full vector whose length must equal the
  model's parameter count, a mismatch being a precondition violation.
\<close>

record optimisable =
  parametersVector :: vec
  objective_at :: "vec \<Rightarrow> real"
  gradient_at :: "vec \<Rightarrow> vec"

definition getParametersVector :: "optimisable \<Rightarrow> vec" where
  "getParametersVector m = parametersVector m"

definition setParametersVector :: "optimisable \<Rightarrow> vec \<Rightarrow> error + optimisable" where
  "setParametersVector m v =
     (if length v = length (parametersVector m) then Inr (m\<lparr>parametersVector := v\<rparr>)
      else Inl PreconditionViolation)"

definition objective :: "optimisable \<Rightarrow> real" where
  "objective m = objective_at m (parametersVector m)"

definition gradient :: "optimisable \<Rightarrow> vec" where
  "gradient m = gradient_at m (parametersVector m)"

text \<open>
  The data members of \<^verbatim>\<open>ModelTrainer\<close>, as the constructor initialises them. Their
  declarations are in \<^verbatim>\<open>ModelTrainer.h\<close>, outside the sources; the two counters are
  taken as unbounded integers.
\<close>

record trainer =
  model :: optimisable
  display :: bool
  errorTolerance :: real
  parameterTolerance :: real
  gradientCheck :: bool
  analyticGradients :: bool
  functionEvaluations :: int
  gradientEvaluations :: int
  functionValue :: real
  lineMinimiserIterations :: int
  lineMinimiserParameterTolerance :: real
  maskSet :: bool
  optimisationMask :: bvec
  epsilon :: real

definition ModelTrainer :: "optimisable \<Rightarrow> trainer" where
  "ModelTrainer m =
     \<lparr> model = m, display = True, errorTolerance = 1 / 10 ^ 6, parameterTolerance = 1 / 10 ^ 4,
       gradientCheck = True, analyticGradients = True,
       functionEvaluations = 0, gradientEvaluations = 0, functionValue = 0,
       lineMinimiserIterations = 10, lineMinimiserParameterTolerance = 1 / 10 ^ 4,
       maskSet = False, optimisationMask = [], epsilon = 1 / 10 ^ 6 \<rparr>"

subsection \<open>Parameter masking\<close>

text \<open>
  The loop of \<^verbatim>\<open>setParameters\<close>: \<open>i\<close> runs over the mask, \<open>pos\<close> over \<open>p\<close>, and
  \<open>maskedParameters\<close> starts as the model's full vector.
\<close>

function setParameters_loop :: "bvec \<Rightarrow> vec \<Rightarrow> nat \<Rightarrow> nat \<Rightarrow> vec \<Rightarrow> error + vec" where
  "setParameters_loop omask p i pos maskedParameters =
     (if i < length omask then
        (if omask ! i then
           (if pos < length p \<and> i < length maskedParameters
            then setParameters_loop omask p (i + 1) (pos + 1) (maskedParameters[i := p ! pos])
            else Inl IndexOutOfRange)
         else setParameters_loop omask p (i + 1) pos maskedParameters)
      else Inr maskedParameters)"
  by pat_completeness auto
termination
  by (relation "measure (\<lambda>(omask, p, i, pos, mp). length omask - i)") auto

declare setParameters_loop.simps [simp del]

definition setParameters :: "vec \<Rightarrow> trainer \<Rightarrow> error + trainer" where
  "setParameters p st =
     (if maskSet st then
        (case setParameters_loop (optimisationMask st) p 0 0 (getParametersVector (model st)) of
           Inl e \<Rightarrow> Inl e
         | Inr maskedParameters \<Rightarrow>
             (case setParametersVector (model st) maskedParameters of
                Inl e \<Rightarrow> Inl e
              | Inr m \<Rightarrow> Inr (st\<lparr>model := m\<rparr>)))
      else
        (case setParametersVector (model st) p of
           Inl e \<Rightarrow> Inl e
         | Inr m \<Rightarrow> Inr (st\<lparr>model := m\<rparr>)))"

text \<open>The loop of \<^verbatim>\<open>getParameters\<close>; \<^verbatim>\<open>concat\<close> appends one element.\<close>

function getParameters_loop :: "bvec \<Rightarrow> vec \<Rightarrow> nat \<Rightarrow> vec \<Rightarrow> vec" where
  "getParameters_loop omask p i maskedParameters =
     (if i < length omask then
        (if omask ! i then getParameters_loop omask p (i + 1) (maskedParameters @ [p ! i])
         else getParameters_loop omask p (i + 1) maskedParameters)
      else maskedParameters)"
  by pat_completeness auto
termination
  by (relation "measure (\<lambda>(omask, p, i, mp). length omask - i)") auto

declare getParameters_loop.simps [simp del]

definition getParameters :: "trainer \<Rightarrow> error + vec" where
  "getParameters st =
     (if maskSet st then
        (let p = getParametersVector (model st) in
         if length (optimisationMask st) = length p
         then Inr (getParameters_loop (optimisationMask st) p 0 [])
         else Inl AssertionFailed)
      else Inr (getParametersVector (model st)))"

subsection \<open>The objective and gradient oracle\<close>

definition errorFunction :: "vec \<Rightarrow> trainer \<Rightarrow> error + (real \<times> trainer)" where
  "errorFunction params st =
     (case setParameters params (st\<lparr>functionEvaluations := functionEvaluations st + 1\<rparr>) of
        Inl e \<Rightarrow> Inl e
      | Inr st' \<Rightarrow> Inr (objective (model st'), st'))"

definition calculateNumericalGradient :: "int \<Rightarrow> vec \<Rightarrow> trainer \<Rightarrow> error + (real \<times> trainer)" where
  "calculateNumericalGradient parameterNumber params st =
     (case vec_get params parameterNumber of
        Inl e \<Rightarrow> Inl e
      | Inr x \<Rightarrow>
     (case vec_set params parameterNumber (x + epsilon st) of
        Inl e \<Rightarrow> Inl e
      | Inr xNew \<Rightarrow>
     (case errorFunction xNew st of
        Inl e \<Rightarrow> Inl e
      | Inr (fplus, st1) \<Rightarrow>
     (case vec_set params parameterNumber (x - epsilon st1) of
        Inl e \<Rightarrow> Inl e
      | Inr xNew' \<Rightarrow>
     (case errorFunction xNew' st1 of
        Inl e \<Rightarrow> Inl e
      | Inr (fminus, st2) \<Rightarrow> Inr ((1 / 2) * ((fplus - fminus) / epsilon st2), st2))))))"

text \<open>The loop of \<^verbatim>\<open>numericalGradients\<close>; \<open>g\<close> has \<open>numParams\<close> entries.\<close>

function numericalGradients_loop :: "vec \<Rightarrow> nat \<Rightarrow> nat \<Rightarrow> vec \<Rightarrow> trainer \<Rightarrow> error + (vec \<times> trainer)" where
  "numericalGradients_loop params numParams i g st =
     (if i < numParams then
        (case calculateNumericalGradient (int i) params st of
           Inl e \<Rightarrow> Inl e
         | Inr (gi, st') \<Rightarrow>
             (case vec_set g (int i) gi of
                Inl e \<Rightarrow> Inl e
              | Inr g' \<Rightarrow> numericalGradients_loop params numParams (i + 1) g' st'))
      else Inr (g, st))"
  by pat_completeness auto
termination
  by (relation "measure (\<lambda>(params, numParams, i, g, st). numParams - i)") auto

declare numericalGradients_loop.simps [simp del]

definition numericalGradients :: "vec \<Rightarrow> trainer \<Rightarrow> error + (vec \<times> trainer)" where
  "numericalGradients params st =
     (case setParameters params st of
        Inl e \<Rightarrow> Inl e
      | Inr st' \<Rightarrow>
          (let numParams = length params
           in numericalGradients_loop params numParams 0 (replicate numParams 0) st'))"

definition errorGradients :: "vec \<Rightarrow> trainer \<Rightarrow> error + (vec \<times> trainer)" where
  "errorGradients params st =
     (if analyticGradients st then
        (case setParameters params (st\<lparr>gradientEvaluations := gradientEvaluations st + 1\<rparr>) of
           Inl e \<Rightarrow> Inl e
         | Inr st' \<Rightarrow> Inr (gradient (model st'), st'))
      else numericalGradients params st)"

subsection \<open>The gradient check\<close>

text \<open>
  One line of the table: the index, the mask marker (\<^verbatim>\<open>" "\<close> for an active parameter,
  \<^verbatim>\<open>"x"\<close> for a masked one, nothing without a mask), \<^verbatim>\<open>delta\<close>, \<^verbatim>\<open>gNew(i)\<close> and
  \<^verbatim>\<open>abs(delta - gNew(i))\<close>.
\<close>

type_synonym gradcheck_row = "nat \<times> string \<times> real \<times> real \<times> real"

definition gradcheck_row :: "nat \<Rightarrow> string \<Rightarrow> real \<Rightarrow> real \<Rightarrow> gradcheck_row" where
  "gradcheck_row i marker delta g = (i, marker, delta, g, \<bar>delta - g\<bar>)"

function checkGradient_loop ::
  "vec \<Rightarrow> nat \<Rightarrow> nat \<Rightarrow> nat \<Rightarrow> vec \<Rightarrow> gradcheck_row list \<Rightarrow> trainer
     \<Rightarrow> error + (gradcheck_row list \<times> trainer)" where
  "checkGradient_loop xOld numParams i pos gNew rows st =
     (if i < numParams then
        (if maskSet st then
           (case vec_get (optimisationMask st) (int i) of
              Inl e \<Rightarrow> Inl e
            | Inr True \<Rightarrow>
                (case calculateNumericalGradient (int pos) xOld st of
                   Inl e \<Rightarrow> Inl e
                 | Inr (delta, st') \<Rightarrow>
                     (case vec_get gNew (int i) of
                        Inl e \<Rightarrow> Inl e
                      | Inr gi \<Rightarrow>
                          checkGradient_loop xOld numParams (i + 1) (pos + 1) gNew
                            (rows @ [gradcheck_row i '' '' delta gi]) st'))
            | Inr False \<Rightarrow>
                (case vec_set gNew (int i) 0 of
                   Inl e \<Rightarrow> Inl e
                 | Inr gNew' \<Rightarrow>
                     (case vec_get gNew' (int i) of
                        Inl e \<Rightarrow> Inl e
                      | Inr gi \<Rightarrow>
                          checkGradient_loop xOld numParams (i + 1) pos gNew'
                            (rows @ [gradcheck_row i ''x'' 0 gi]) st)))
         else
           (case calculateNumericalGradient (int i) xOld st of
              Inl e \<Rightarrow> Inl e
            | Inr (delta, st') \<Rightarrow>
                (case vec_get gNew (int i) of
                   Inl e \<Rightarrow> Inl e
                 | Inr gi \<Rightarrow>
                     checkGradient_loop xOld numParams (i + 1) pos gNew
                       (rows @ [gradcheck_row i [] delta gi]) st')))
      else Inr (rows, st))"
  by pat_completeness auto
termination
  by (relation "measure (\<lambda>(xOld, numParams, i, pos, gNew, rows, st). numParams - i)") auto

declare checkGradient_loop.simps [simp del]

definition checkGradient :: "trainer \<Rightarrow> error + (gradcheck_row list \<times> trainer)" where
  "checkGradient st =
     (case getParameters st of
        Inl e \<Rightarrow> Inl e
      | Inr xOld \<Rightarrow>
          (let gNew = gradient (model st); numParams = length gNew
           in checkGradient_loop xOld numParams 0 0 gNew [] st))"

subsection \<open>The line function\<close>

definition lineFunction :: "vec \<Rightarrow> real \<Rightarrow> vec \<Rightarrow> trainer \<Rightarrow> error + (real \<times> trainer)" where
  "lineFunction param lambda direction st =
     (case getParameters st of
        Inl e \<Rightarrow> Inl e
      | Inr xOld \<Rightarrow>
     (case vec_add param (vec_scale lambda direction) of
        Inl e \<Rightarrow> Inl e
      | Inr point \<Rightarrow>
     (case errorFunction point st of
        Inl e \<Rightarrow> Inl e
      | Inr (f, st1) \<Rightarrow>
     (case setParameters xOld st1 of
        Inl e \<Rightarrow> Inl e
      | Inr st2 \<Rightarrow> Inr (f, st2)))))"

subsection \<open>Constants and special values of the line search\<close>

text \<open>
  The macros \<^verbatim>\<open>PHI\<close>, \<^verbatim>\<open>CPHI\<close>, \<^verbatim>\<open>TOL\<close> and \<^verbatim>\<open>TINY\<close> are defined in \<^verbatim>\<open>ModelTrainer.h\<close>,
  outside the sources: the functions that use them take them as a parameter. The
  division by \<^verbatim>\<open>PHI\<close> in \<^verbatim>\<open>bracketMinimum\<close> is the division of the reals, so \<^verbatim>\<open>PHI\<close> is
  meant nonzero.
\<close>

record constants =
  PHI :: real
  CPHI :: real
  TOL :: real
  TINY :: real

text \<open>
  IT++'s \<^verbatim>\<open>sign\<close> is zero at zero. In \<^verbatim>\<open>bracketMinimum\<close> it multiplies the denominator of
  the parabolic extrapolation, which is therefore zero when \<^verbatim>\<open>q = r\<close>; the quotient is
  then an infinity or a NaN. The type \<open>xdouble\<close> adds these values to the reals, with
  the IEEE-754 rules of the operations that the extrapolated point \<^verbatim>\<open>u\<close> goes through.
\<close>

definition sign :: "real \<Rightarrow> real" where
  "sign x = (if x = 0 then 0 else if x < 0 then - 1 else 1)"

datatype xdouble = Finite real | PlusInfinity | MinusInfinity | NotANumber

text \<open>A finite numerator over a finite denominator; a zero denominator is \<open>+0.0\<close> here.\<close>

definition x_div :: "real \<Rightarrow> real \<Rightarrow> xdouble" where
  "x_div n d =
     (if d \<noteq> 0 then Finite (n / d)
      else if 0 < n then PlusInfinity else if n < 0 then MinusInfinity else NotANumber)"

fun x_neg :: "xdouble \<Rightarrow> xdouble" where
  "x_neg (Finite v) = Finite (- v)"
| "x_neg PlusInfinity = MinusInfinity"
| "x_neg MinusInfinity = PlusInfinity"
| "x_neg NotANumber = NotANumber"

text \<open>A finite value plus an extended one, and the difference in both orders.\<close>

fun x_add :: "real \<Rightarrow> xdouble \<Rightarrow> xdouble" where
  "x_add s (Finite v) = Finite (s + v)"
| "x_add s PlusInfinity = PlusInfinity"
| "x_add s MinusInfinity = MinusInfinity"
| "x_add s NotANumber = NotANumber"

definition x_minus :: "real \<Rightarrow> xdouble \<Rightarrow> xdouble" where
  "x_minus s y = x_add s (x_neg y)"

definition x_less :: "xdouble \<Rightarrow> real \<Rightarrow> xdouble" where
  "x_less y s = x_add (- s) y"

fun x_mult :: "xdouble \<Rightarrow> xdouble \<Rightarrow> xdouble" where
  "x_mult (Finite v) (Finite w) = Finite (v * w)"
| "x_mult NotANumber y = NotANumber"
| "x_mult y NotANumber = NotANumber"
| "x_mult (Finite v) PlusInfinity =
     (if 0 < v then PlusInfinity else if v < 0 then MinusInfinity else NotANumber)"
| "x_mult (Finite v) MinusInfinity =
     (if 0 < v then MinusInfinity else if v < 0 then PlusInfinity else NotANumber)"
| "x_mult PlusInfinity (Finite w) =
     (if 0 < w then PlusInfinity else if w < 0 then MinusInfinity else NotANumber)"
| "x_mult MinusInfinity (Finite w) =
     (if 0 < w then MinusInfinity else if w < 0 then PlusInfinity else NotANumber)"
| "x_mult PlusInfinity PlusInfinity = PlusInfinity"
| "x_mult PlusInfinity MinusInfinity = MinusInfinity"
| "x_mult MinusInfinity PlusInfinity = MinusInfinity"
| "x_mult MinusInfinity MinusInfinity = PlusInfinity"

text \<open>The comparisons \<^verbatim>\<open>y > 0.0\<close> and \<^verbatim>\<open>y >= 0.0\<close>; both are false for a NaN.\<close>

fun x_positive :: "xdouble \<Rightarrow> bool" where
  "x_positive (Finite v) = (0 < v)"
| "x_positive PlusInfinity = True"
| "x_positive MinusInfinity = False"
| "x_positive NotANumber = False"

fun x_nonnegative :: "xdouble \<Rightarrow> bool" where
  "x_nonnegative (Finite v) = (0 \<le> v)"
| "x_nonnegative PlusInfinity = True"
| "x_nonnegative MinusInfinity = False"
| "x_nonnegative NotANumber = False"

text \<open>
  The value passed on where the code uses \<^verbatim>\<open>u\<close> as a step: this happens only after one
  of the two strict tests on \<^verbatim>\<open>u\<close> has succeeded, which makes \<^verbatim>\<open>u\<close> finite.
\<close>

fun x_value :: "xdouble \<Rightarrow> real" where
  "x_value (Finite v) = v"
| "x_value PlusInfinity = 0"
| "x_value MinusInfinity = 0"
| "x_value NotANumber = 0"

subsection \<open>Bracketing a minimum\<close>

text \<open>Lines 464 to 473: \<^verbatim>\<open>br_mid = b\<close>, and \<^verbatim>\<open>a\<close> and \<^verbatim>\<open>c\<close> in ascending order.\<close>

definition bracket_exit :: "real \<Rightarrow> real \<Rightarrow> real \<Rightarrow> real \<times> real \<times> real" where
  "bracket_exit a b c = (if a < c then (a, b, c) else (c, b, a))"

text \<open>
  The loop \<^verbatim>\<open>while (fb > fa)\<close> of the first branch, entered after the first shrink step.
  The result is the triple \<open>(br_min, br_mid, br_max)\<close>.
\<close>

partial_function (option) bracketMinimum_shrink ::
  "constants \<Rightarrow> vec \<Rightarrow> vec \<Rightarrow> real \<Rightarrow> real \<Rightarrow> real \<Rightarrow> real \<Rightarrow> real \<Rightarrow> trainer
     \<Rightarrow> (error + ((real \<times> real \<times> real) \<times> trainer)) option" where
  "bracketMinimum_shrink K params direction a b c fa fb st =
     (if fb > fa then
        (case lineFunction params (a + (b - a) / PHI K) direction st of
           Inl e \<Rightarrow> Some (Inl e)
         | Inr (fb', st') \<Rightarrow>
             bracketMinimum_shrink K params direction a (a + (b - a) / PHI K) b fa fb' st')
      else Some (Inr (bracket_exit a b c, st)))"

text \<open>
  One pass through lines 401 to 453 of the expansion loop: either \<^verbatim>\<open>bracketMinimum\<close>
  returns a triple, or the pass goes on to line 455 with new values of
  \<^verbatim>\<open>b\<close>, \<^verbatim>\<open>c\<close>, \<^verbatim>\<open>u\<close>, \<^verbatim>\<open>fu\<close> and \<^verbatim>\<open>bracket_found\<close>.
\<close>

datatype expansion =
    Return "real \<times> real \<times> real"
  | Proceed real real real real bool

definition max_step :: real where
  "max_step = 10"

definition bracketMinimum_trial ::
  "constants \<Rightarrow> vec \<Rightarrow> vec \<Rightarrow> real \<Rightarrow> real \<Rightarrow> real \<Rightarrow> real \<Rightarrow> real \<Rightarrow> real \<Rightarrow> real \<Rightarrow> bool
     \<Rightarrow> trainer \<Rightarrow> error + (expansion \<times> trainer)" where
  "bracketMinimum_trial K params direction a b c fa fb fc fu bracket_found st =
     (let r = (b - a) * (fb - fc);
          q = (b - c) * (fb - fa);
          u = x_minus b (x_div ((b - c) * q - (b - a) * r)
                               (2 * (sign (q - r) * max \<bar>q - r\<bar> (TINY K))));
          ulimit = b + max_step * (c - b)
      in
      if x_positive (x_mult (x_minus b u) (x_less u c)) then
        (case lineFunction params (x_value u) direction st of
           Inl e \<Rightarrow> Inl e
         | Inr (fu', st') \<Rightarrow>
             if fu' < fc then Inr (Return (b, x_value u, c), st')
             else if fu' > fb then Inr (Return (a, c, x_value u), st')
             else Inr (Proceed b c (c + PHI K * (c - b)) fu' bracket_found, st'))
      else if x_positive (x_mult (x_minus c u) (x_less u ulimit)) then
        (case lineFunction params (x_value u) direction st of
           Inl e \<Rightarrow> Inl e
         | Inr (fu', st') \<Rightarrow>
             if fu' < fc
             then Inr (Proceed c (x_value u) (x_value u + PHI K * (x_value u - c)) fu' bracket_found, st')
             else Inr (Proceed b c (x_value u) fu' True, st'))
      else if x_nonnegative (x_mult (x_less u ulimit) (Finite (ulimit - c)))
      then Inr (Proceed b c ulimit fu bracket_found, st)
      else Inr (Proceed b c (c + PHI K * (c - b)) fu bracket_found, st))"

text \<open>
  The loop \<^verbatim>\<open>while (fb > fc)\<close>: a pass through the trial, then lines 455 to 460. The
  variables \<^verbatim>\<open>fu\<close> and \<^verbatim>\<open>bracket_found\<close> live across passes.
\<close>

partial_function (option) bracketMinimum_expand ::
  "constants \<Rightarrow> vec \<Rightarrow> vec \<Rightarrow> real \<Rightarrow> real \<Rightarrow> real \<Rightarrow> real \<Rightarrow> real \<Rightarrow> real \<Rightarrow> real \<Rightarrow> bool
     \<Rightarrow> trainer \<Rightarrow> (error + ((real \<times> real \<times> real) \<times> trainer)) option" where
  "bracketMinimum_expand K params direction a b c fa fb fc fu bracket_found st =
     (if fb > fc then
        (case bracketMinimum_trial K params direction a b c fa fb fc fu bracket_found st of
           Inl e \<Rightarrow> Some (Inl e)
         | Inr (Return br, st') \<Rightarrow> Some (Inr (br, st'))
         | Inr (Proceed b' c' u fu' bracket_found', st') \<Rightarrow>
             (if \<not> bracket_found' then
                (case lineFunction params u direction st' of
                   Inl e \<Rightarrow> Some (Inl e)
                 | Inr (fu'', st'') \<Rightarrow>
                     bracketMinimum_expand K params direction b' c' u fb fc fu'' fu'' bracket_found' st'')
              else bracketMinimum_expand K params direction b' c' u fb fc fu' fu' bracket_found' st'))
      else Some (Inr (bracket_exit a b c, st)))"

definition bracketMinimum ::
  "constants \<Rightarrow> real \<Rightarrow> real \<Rightarrow> real \<Rightarrow> vec \<Rightarrow> vec \<Rightarrow> trainer
     \<Rightarrow> (error + ((real \<times> real \<times> real) \<times> trainer)) option" where
  "bracketMinimum K a b fa params direction st =
     (case lineFunction params b direction st of
        Inl e \<Rightarrow> Some (Inl e)
      | Inr (fb, st1) \<Rightarrow>
          if fb > fa then
            (case lineFunction params (a + (b - a) / PHI K) direction st1 of
               Inl e \<Rightarrow> Some (Inl e)
             | Inr (fb', st2) \<Rightarrow>
                 bracketMinimum_shrink K params direction a (a + (b - a) / PHI K) b fa fb' st2)
          else
            (case lineFunction params (b + PHI K * (b - a)) direction st1 of
               Inl e \<Rightarrow> Some (Inl e)
             | Inr (fc, st2) \<Rightarrow>
                 bracketMinimum_expand K params direction a b (b + PHI K * (b - a)) fa fb fc 0 False st2))"

subsection \<open>The line minimiser\<close>

text \<open>
  The variables of \<^verbatim>\<open>lineMinimiser\<close> that live across iterations. The others
  (\<^verbatim>\<open>xm\<close>, \<^verbatim>\<open>tol1\<close>, \<^verbatim>\<open>r\<close>, \<^verbatim>\<open>q\<close>, \<^verbatim>\<open>p\<close>, \<^verbatim>\<open>u\<close>, \<^verbatim>\<open>fu\<close>) are assigned in every
  iteration before they are read.
\<close>

record linesearch =
  ls_br_min :: real
  ls_br_max :: real
  ls_w :: real
  ls_v :: real
  ls_x :: real
  ls_e :: real
  ls_d :: real
  ls_fw :: real
  ls_fv :: real
  ls_fx :: real

text \<open>Lines 262 to 310: the new values of \<^verbatim>\<open>e\<close> and \<^verbatim>\<open>d\<close>.\<close>

definition golden_section :: "constants \<Rightarrow> real \<Rightarrow> linesearch \<Rightarrow> real \<times> real" where
  "golden_section K xm s =
     (let e = (if ls_x s \<ge> xm then ls_br_min s - ls_x s else ls_br_max s - ls_x s)
      in (e, CPHI K * e))"

definition lineMinimiser_step :: "constants \<Rightarrow> real \<Rightarrow> real \<Rightarrow> linesearch \<Rightarrow> real \<times> real" where
  "lineMinimiser_step K xm tol1 s =
     (if \<bar>ls_e s\<bar> > tol1 then
        (let r = (ls_fx s - ls_fv s) * (ls_x s - ls_w s);
             q = (ls_fx s - ls_fw s) * (ls_x s - ls_v s);
             p = ((ls_x s - ls_v s) * q) - ((ls_x s - ls_w s) * r);
             q = 2 * (q - r);
             p = (if q > 0 then - p else p);
             q = \<bar>q\<bar>
         in
         if \<bar>p\<bar> \<ge> \<bar>(1 / 2) * q * ls_e s\<bar> \<or> p \<le> q * (ls_br_min s - ls_x s)
              \<or> p \<ge> q * (ls_br_max s - ls_x s)
         then golden_section K xm s
         else
           (let e = ls_d s; d = p / q; u = ls_x s + d
            in if (u - ls_br_min s) < 2 * tol1 \<or> (ls_br_max s - u) < 2 * tol1
               then (e, sign (xm - ls_x s) * tol1)
               else (e, d)))
      else golden_section K xm s)"

text \<open>Lines 323 to 358: the bookkeeping after the evaluation at \<^verbatim>\<open>u\<close>.\<close>

definition lineMinimiser_update :: "real \<Rightarrow> real \<Rightarrow> linesearch \<Rightarrow> linesearch" where
  "lineMinimiser_update u fu s =
     (if fu \<le> ls_fx s then
        (let s1 = (if u \<ge> ls_x s then s\<lparr>ls_br_min := ls_x s\<rparr> else s\<lparr>ls_br_max := ls_x s\<rparr>)
         in s1\<lparr>ls_v := ls_w s, ls_w := ls_x s, ls_x := u,
                ls_fv := ls_fw s, ls_fw := ls_fx s, ls_fx := fu\<rparr>)
      else
        (let s1 = (if u < ls_x s then s\<lparr>ls_br_min := u\<rparr> else s\<lparr>ls_br_max := u\<rparr>)
         in if fu \<le> ls_fw s \<or> ls_w s = ls_x s
            then s1\<lparr>ls_v := ls_w s, ls_w := u, ls_fv := ls_fw s, ls_fw := fu\<rparr>
            else if fu \<le> ls_fv s \<or> ls_v s = ls_x s \<or> ls_v s = ls_w s
            then s1\<lparr>ls_v := u, ls_fv := fu\<rparr>
            else s1))"

text \<open>Lines 262 to 366: one iteration after the convergence test has failed.\<close>

definition lineMinimiser_iteration ::
  "constants \<Rightarrow> vec \<Rightarrow> vec \<Rightarrow> real \<Rightarrow> real \<Rightarrow> linesearch \<Rightarrow> trainer
     \<Rightarrow> error + (linesearch \<times> trainer)" where
  "lineMinimiser_iteration K params direction xm tol1 s st =
     (let (e, d) = lineMinimiser_step K xm tol1 s;
          u = (if \<bar>d\<bar> \<ge> tol1 then ls_x s + d else ls_x s + sign d * tol1)
      in case lineFunction params u direction st of
           Inl err \<Rightarrow> Inl err
         | Inr (fu, st') \<Rightarrow> Inr (lineMinimiser_update u fu (s\<lparr>ls_e := e, ls_d := d\<rparr>), st'))"

text \<open>The convergence test of line 256.\<close>

definition lineMinimiser_converged :: "real \<Rightarrow> linesearch \<Rightarrow> trainer \<Rightarrow> bool" where
  "lineMinimiser_converged xm s st =
     (\<bar>ls_x s - xm\<bar> \<le> lineMinimiserParameterTolerance st
      \<and> (ls_br_max s - ls_br_min s) < 4 * lineMinimiserParameterTolerance st)"

text \<open>
  The loop \<^verbatim>\<open>for (n = 1; n <= lineMinimiserIterations; n++)\<close>. The result is the pair
  of the reference parameters \<open>(fx, x)\<close>.
\<close>

function lineMinimiser_loop ::
  "constants \<Rightarrow> vec \<Rightarrow> vec \<Rightarrow> int \<Rightarrow> linesearch \<Rightarrow> trainer \<Rightarrow> error + ((real \<times> real) \<times> trainer)" where
  "lineMinimiser_loop K params direction n s st =
     (if n \<le> lineMinimiserIterations st then
        (let xm = (1 / 2) * (ls_br_min s + ls_br_max s);
             tol1 = TOL K * \<bar>ls_x s\<bar> + TINY K
         in
         if lineMinimiser_converged xm s st
         then Inr ((ls_fx s, ls_x s), st\<lparr>functionValue := ls_fx s\<rparr>)
         else
           (case lineMinimiser_iteration K params direction xm tol1 s st of
              Inl err \<Rightarrow> Inl err
            | Inr (s', st') \<Rightarrow> lineMinimiser_loop K params direction (n + 1) s' st'))
      else Inr ((ls_fx s, ls_x s), st))"
  by pat_completeness auto
termination
proof (relation "measure (\<lambda>(K, params, direction, n, s, st). nat (lineMinimiserIterations st + 1 - n))",
    goal_cases)
  case 1
  show ?case by simp
next
  case (2 K params direction n s st xm tol1 r s' st')
  have set: "lineMinimiserIterations t' = lineMinimiserIterations t"
    if "setParameters p t = Inr t'" for p t t'
    using that by (auto simp: setParameters_def split: if_splits sum.splits)
  from 2(5) 2(6)[symmetric]
  have "lineMinimiser_iteration K params direction xm tol1 s st = Inr (s', st')"
    by (simp only:)
  then obtain u fu where "lineFunction params u direction st = Inr (fu, st')"
    unfolding lineMinimiser_iteration_def Let_def
    by (auto split: prod.splits sum.splits)
  then obtain xOld point st1 where
    ev: "setParameters point (st\<lparr>functionEvaluations := functionEvaluations st + 1\<rparr>) = Inr st1"
    and rs: "setParameters xOld st1 = Inr st'"
    unfolding lineFunction_def errorFunction_def
    by (fastforce split: sum.splits)
  from set[OF ev] set[OF rs] have "lineMinimiserIterations st' = lineMinimiserIterations st"
    by simp
  with 2(1) show ?case by simp
qed

declare lineMinimiser_loop.simps [simp del]

definition lineMinimiser ::
  "constants \<Rightarrow> real \<Rightarrow> vec \<Rightarrow> vec \<Rightarrow> trainer \<Rightarrow> (error + ((real \<times> real) \<times> trainer)) option" where
  "lineMinimiser K fa params direction st =
     (case bracketMinimum K 0 1 fa params direction st of
        None \<Rightarrow> None
      | Some (Inl err) \<Rightarrow> Some (Inl err)
      | Some (Inr ((br_min, br_mid, br_max), st1)) \<Rightarrow>
          (case lineFunction params br_mid direction st1 of
             Inl err \<Rightarrow> Some (Inl err)
           | Inr (fx, st2) \<Rightarrow>
               Some (lineMinimiser_loop K params direction 1
                 \<lparr> ls_br_min = br_min, ls_br_max = br_max, ls_w = br_mid, ls_v = br_mid,
                   ls_x = br_mid, ls_e = 0, ls_d = 0, ls_fw = fx, ls_fv = fx, ls_fx = fx \<rparr> st2)))"

section \<open>Vocabulary of the statements\<close>

text \<open>
  The number of active (\<open>true\<close>) mask entries before position \<open>j\<close>, and the full vector
  that results from writing an active-subset vector \<open>p\<close> into the active positions of
  \<open>full\<close>.
\<close>

definition active_before :: "bvec \<Rightarrow> nat \<Rightarrow> nat" where
  "active_before omask j = length (filter id (take j omask))"

definition masked_update :: "bvec \<Rightarrow> vec \<Rightarrow> vec \<Rightarrow> vec" where
  "masked_update omask p full =
     map (\<lambda>j. if j < length omask \<and> omask ! j then p ! active_before omask j else full ! j)
       [0..<length full]"


text \<open>
  A model for the examples: the objective is the sum of the squares of the parameters.
  The mask and its flag are private members set through an accessor of the header; the
  examples set the two fields.
\<close>

definition example_objective :: "vec \<Rightarrow> real" where
  "example_objective v = sum_list (map (\<lambda>x. x * x) v)"

definition example_gradient :: "vec \<Rightarrow> vec" where
  "example_gradient v = map (\<lambda>x. 2 * x) v"

definition example_model :: "vec \<Rightarrow> optimisable" where
  "example_model v =
     \<lparr> parametersVector = v, objective_at = example_objective, gradient_at = example_gradient \<rparr>"

definition example_masked :: "bvec \<Rightarrow> vec \<Rightarrow> trainer" where
  "example_masked omask v = (ModelTrainer (example_model v))\<lparr>maskSet := True, optimisationMask := omask\<rparr>"


text \<open>
  An active-subset vector \<open>p\<close> fits the trainer when \<^verbatim>\<open>setParameters\<close> can install it: with
  a mask, the mask has the model's length and \<open>p\<close> has an entry for every active
  position; without a mask, \<open>p\<close> has the model's length. Then \<open>full_point\<close> is the full
  vector that the model holds afterwards.
\<close>

definition fits :: "trainer \<Rightarrow> vec \<Rightarrow> bool" where
  "fits st p =
     (if maskSet st
      then length (optimisationMask st) = length (parametersVector (model st))
           \<and> active_before (optimisationMask st) (length (optimisationMask st)) \<le> length p
      else length p = length (parametersVector (model st)))"

definition full_point :: "trainer \<Rightarrow> vec \<Rightarrow> vec" where
  "full_point st p =
     (if maskSet st then masked_update (optimisationMask st) p (parametersVector (model st)) else p)"

text \<open>Neither evaluation counter of \<open>st'\<close> is below that of \<open>st\<close>.\<close>

definition counters_le :: "trainer \<Rightarrow> trainer \<Rightarrow> bool" where
  "counters_le st st' =
     (functionEvaluations st \<le> functionEvaluations st'
      \<and> gradientEvaluations st \<le> gradientEvaluations st')"


text \<open>
  The active-subset vector that \<^verbatim>\<open>getParameters\<close> extracts, and the value of the line
  function at the step \<open>lambda\<close>: the objective at the full vector of
  \<open>param + lambda * direction\<close>.
\<close>

definition active_values :: "trainer \<Rightarrow> vec" where
  "active_values st =
     (if maskSet st
      then map ((!) (parametersVector (model st)))
             (filter ((!) (optimisationMask st)) [0..<length (parametersVector (model st))])
      else parametersVector (model st))"

definition line_value :: "trainer \<Rightarrow> vec \<Rightarrow> vec \<Rightarrow> real \<Rightarrow> real" where
  "line_value st param direction lambda =
     objective_at (model st) (full_point st (map2 (+) param (vec_scale lambda direction)))"


text \<open>
  Constants for the examples: the values of the Netlab toolbox, on which the line
  search is based (\<^verbatim>\<open>phi = 1.6180339887499\<close>, \<^verbatim>\<open>cphi = 1 - 1/phi\<close>, \<^verbatim>\<open>TOL = sqrt(eps)\<close>,
  which is \<open>2\<^sup>-\<^sup>2\<^sup>6\<close>, and \<^verbatim>\<open>TINY = 1.0e-10\<close>).
\<close>

definition example_constants :: constants where
  "example_constants =
     \<lparr> PHI = 16180339887499 / 10 ^ 13, CPHI = 1 - 10 ^ 13 / 16180339887499,
       TOL = 1 / 2 ^ 26, TINY = 1 / 10 ^ 10 \<rparr>"

text \<open>
  The state in which \<^verbatim>\<open>lineMinimiser\<close> enters its loop for the line function \<open>(t - 3)\<^sup>2\<close>
  (the sum of squares from the parameter \<open>-3\<close> along \<open>(1)\<close>, with \<open>fa = 9\<close>):
  \<^verbatim>\<open>bracketMinimum\<close> returns the bracket \<open>(1 + PHI, 3, 3 + PHI * (2 - PHI))\<close> and \<open>x\<close>
  starts at its middle point.
\<close>

definition parabola_linesearch :: linesearch where
  "parabola_linesearch =
     \<lparr> ls_br_min = 26180339887499 / 10 ^ 13,
       ls_br_max = 361803398874988848023524999 / 10 ^ 26,
       ls_w = 3, ls_v = 3, ls_x = 3, ls_e = 0, ls_d = 0, ls_fw = 0, ls_fv = 0, ls_fx = 0 \<rparr>"


text \<open>
  A line function is strictly unimodal with minimiser \<open>m\<close> when it is strictly decreasing
  up to \<open>m\<close> and strictly increasing from \<open>m\<close> on.
\<close>

definition strictly_unimodal :: "(real \<Rightarrow> real) \<Rightarrow> real \<Rightarrow> bool" where
  "strictly_unimodal f m =
     ((\<forall>x y. x < y \<and> y \<le> m \<longrightarrow> f y < f x) \<and> (\<forall>x y. m \<le> x \<and> x < y \<longrightarrow> f x < f y))"

text \<open>
  A strictly unimodal line function with its minimum at \<open>4\<close>: a parabola to the left of
  the minimum and a gentle slope to the right. The model has one parameter, so that
  from the parameter \<open>0\<close> along the direction \<open>(1)\<close> the line function is
  \<open>skewed_line\<close>.
\<close>

definition skewed_line :: "real \<Rightarrow> real" where
  "skewed_line t = (if t \<le> 4 then (t - 4) ^ 2 else (t - 4) / 10)"

definition skewed_objective :: "vec \<Rightarrow> real" where
  "skewed_objective v = (case v of [] \<Rightarrow> 0 | t # _ \<Rightarrow> skewed_line t)"

definition skewed_model :: optimisable where
  "skewed_model =
     \<lparr> parametersVector = [0], objective_at = skewed_objective, gradient_at = example_gradient \<rparr>"




section \<open>Parameter masking\<close>

lemmas example_defs = example_masked_def example_model_def ModelTrainer_def


lemma active_before_Suc:
  "i < length omask \<Longrightarrow>
     active_before omask (Suc i) = (if omask ! i then Suc (active_before omask i) else active_before omask i)"
  by (simp add: active_before_def take_Suc_conv_app_nth)

lemma active_before_mono: "i \<le> j \<Longrightarrow> active_before omask i \<le> active_before omask j"
proof (induction j)
  case 0
  then show ?case by simp
next
  case (Suc j)
  show ?case
  proof (cases "i = Suc j")
    case True
    then show ?thesis by simp
  next
    case False
    with Suc have le: "active_before omask i \<le> active_before omask j" by simp
    show ?thesis
    proof (cases "j < length omask")
      case True
      with le show ?thesis by (simp add: active_before_Suc)
    next
      case False
      with le show ?thesis by (simp add: active_before_def)
    qed
  qed
qed

lemma getParameters_loop_eq:
  "getParameters_loop omask p i acc = acc @ map ((!) p) (filter ((!) omask) [i..<length omask])"
proof (induction omask p i acc rule: getParameters_loop.induct)
  case (1 omask p i acc)
  show ?case
  proof (cases "i < length omask")
    case True
    then show ?thesis
      using 1 by (subst getParameters_loop.simps) (simp add: upt_conv_Cons)
  next
    case False
    then show ?thesis
      by (subst getParameters_loop.simps) simp
  qed
qed

lemma setParameters_loop_ok:
  assumes "i \<le> length omask" "length omask \<le> length mp"
    and "active_before omask (length omask) \<le> length p"
  shows "setParameters_loop omask p i (active_before omask i) mp =
           Inr (map (\<lambda>j. if i \<le> j \<and> j < length omask \<and> omask ! j
                          then p ! active_before omask j else mp ! j) [0..<length mp])"
  using assms
proof (induction "length omask - i" arbitrary: i mp)
  case 0
  then have "i = length omask" by simp
  then show ?case
    by (subst setParameters_loop.simps) (auto intro: nth_equalityI)
next
  case (Suc n)
  then have lt: "i < length omask" by simp
  have step: "n = length omask - Suc i" using Suc(2) by simp
  show ?case
  proof (cases "omask ! i")
    case True
    have "active_before omask (Suc i) \<le> active_before omask (length omask)"
      using lt by (intro active_before_mono) simp
    with True lt Suc.prems have pos: "active_before omask i < length p"
      by (simp add: active_before_Suc)
    have "setParameters_loop omask p (Suc i) (active_before omask (Suc i)) (mp[i := p ! active_before omask i]) =
          Inr (map (\<lambda>j. if Suc i \<le> j \<and> j < length omask \<and> omask ! j
                          then p ! active_before omask j else mp[i := p ! active_before omask i] ! j)
                 [0..<length (mp[i := p ! active_before omask i])])"
      using Suc.prems lt by (intro Suc(1)[OF step]) simp_all
    also have "map (\<lambda>j. if Suc i \<le> j \<and> j < length omask \<and> omask ! j
                          then p ! active_before omask j else mp[i := p ! active_before omask i] ! j)
                 [0..<length (mp[i := p ! active_before omask i])] =
               map (\<lambda>j. if i \<le> j \<and> j < length omask \<and> omask ! j
                          then p ! active_before omask j else mp ! j) [0..<length mp]"
      using True lt Suc.prems by (auto intro!: nth_equalityI simp: nth_list_update)
    finally show ?thesis
      using True lt pos Suc.prems
      by (subst setParameters_loop.simps) (simp add: active_before_Suc)
  next
    case False
    have "setParameters_loop omask p (Suc i) (active_before omask (Suc i)) mp =
          Inr (map (\<lambda>j. if Suc i \<le> j \<and> j < length omask \<and> omask ! j
                          then p ! active_before omask j else mp ! j) [0..<length mp])"
      using Suc.prems lt by (intro Suc(1)[OF step]) simp_all
    also have "map (\<lambda>j. if Suc i \<le> j \<and> j < length omask \<and> omask ! j
                          then p ! active_before omask j else mp ! j) [0..<length mp] =
               map (\<lambda>j. if i \<le> j \<and> j < length omask \<and> omask ! j
                          then p ! active_before omask j else mp ! j) [0..<length mp]"
      using False by (auto intro!: nth_equalityI simp: Suc_le_eq le_less)
    finally show ?thesis
      using False lt
      by (subst setParameters_loop.simps) (simp add: active_before_Suc)
  qed
qed

lemma setParameters_loop_short:
  assumes "i \<le> length omask" "length omask \<le> length mp"
    and "length p < active_before omask (length omask)"
    and "active_before omask i \<le> length p"
  shows "setParameters_loop omask p i (active_before omask i) mp = Inl IndexOutOfRange"
  using assms
proof (induction "length omask - i" arbitrary: i mp)
  case 0
  then show ?case by simp
next
  case (Suc n)
  then have lt: "i < length omask" by simp
  have step: "n = length omask - Suc i" using Suc(2) by simp
  show ?case
  proof (cases "omask ! i \<and> active_before omask i < length p")
    case True
    then have "setParameters_loop omask p (Suc i) (active_before omask (Suc i)) (mp[i := p ! active_before omask i]) = Inl IndexOutOfRange"
      using Suc.prems lt by (intro Suc(1)[OF step]) (simp_all add: active_before_Suc)
    then show ?thesis
      using True lt Suc.prems
      by (subst setParameters_loop.simps) (simp add: active_before_Suc)
  next
    case False
    show ?thesis
    proof (cases "omask ! i")
      case True
      with False show ?thesis
        using lt by (subst setParameters_loop.simps) simp
    next
      case nm: False
      then have "setParameters_loop omask p (Suc i) (active_before omask (Suc i)) mp = Inl IndexOutOfRange"
        using Suc.prems lt by (intro Suc(1)[OF step]) (simp_all add: active_before_Suc)
      then show ?thesis
        using nm lt
        by (subst setParameters_loop.simps) (simp add: active_before_Suc)
    qed
  qed
qed


lemma active_before_0 [simp]: "active_before omask 0 = 0"
  by (simp add: active_before_def)

lemma length_masked_update [simp]: "length (masked_update omask p full) = length full"
  by (simp add: masked_update_def)

lemma nth_masked_update:
  "j < length full \<Longrightarrow>
     masked_update omask p full ! j =
       (if j < length omask \<and> omask ! j then p ! active_before omask j else full ! j)"
  by (simp add: masked_update_def)

lemma setParameters_masked:
  assumes "maskSet st"
    and "length (optimisationMask st) = length (parametersVector (model st))"
    and "active_before (optimisationMask st) (length (optimisationMask st)) \<le> length p"
  shows "setParameters p st =
           Inr (st\<lparr>model := (model st)\<lparr>parametersVector :=
                  masked_update (optimisationMask st) p (parametersVector (model st))\<rparr>\<rparr>)"
proof -
  let ?omask = "optimisationMask st" and ?full = "parametersVector (model st)"
  have "setParameters_loop ?omask p 0 (active_before ?omask 0) ?full =
          Inr (map (\<lambda>j. if 0 \<le> j \<and> j < length ?omask \<and> ?omask ! j
                         then p ! active_before ?omask j else ?full ! j) [0..<length ?full])"
    using assms by (intro setParameters_loop_ok) simp_all
  then have "setParameters_loop ?omask p 0 0 ?full = Inr (masked_update ?omask p ?full)"
    by (simp add: masked_update_def)
  then show ?thesis
    using assms(1) by (simp add: setParameters_def getParametersVector_def setParametersVector_def)
qed

lemma setParameters_masked_short:
  assumes "maskSet st"
    and "length (optimisationMask st) = length (parametersVector (model st))"
    and "length p < active_before (optimisationMask st) (length (optimisationMask st))"
  shows "setParameters p st = Inl IndexOutOfRange"
proof -
  let ?omask = "optimisationMask st" and ?full = "parametersVector (model st)"
  have "setParameters_loop ?omask p 0 (active_before ?omask 0) ?full = Inl IndexOutOfRange"
    using assms by (intro setParameters_loop_short) simp_all
  then show ?thesis
    using assms(1) by (simp add: setParameters_def getParametersVector_def)
qed

lemma setParameters_unmasked:
  assumes "\<not> maskSet st" and "length p = length (parametersVector (model st))"
  shows "setParameters p st = Inr (st\<lparr>model := (model st)\<lparr>parametersVector := p\<rparr>\<rparr>)"
  using assms by (simp add: setParameters_def setParametersVector_def)

lemma getParameters_masked:
  assumes "maskSet st"
    and "length (optimisationMask st) = length (parametersVector (model st))"
  shows "getParameters st =
           Inr (map ((!) (parametersVector (model st)))
                  (filter ((!) (optimisationMask st)) [0..<length (parametersVector (model st))]))"
  using assms by (simp add: getParameters_def getParametersVector_def getParameters_loop_eq Let_def)

lemma length_filter_upt:
  "j \<le> length omask \<Longrightarrow> length (filter ((!) omask) [0..<j]) = active_before omask j"
  by (induction j) (simp_all add: active_before_Suc)

lemma nth_filter_upt:
  assumes "j < length omask" "omask ! j"
  shows "filter ((!) omask) [0..<length omask] ! active_before omask j = j"
proof -
  have "[0..<length omask] = [0..<j] @ j # [Suc j..<length omask]"
    using assms(1) by (metis le0 upt_add_eq_append upt_conv_Cons le_add_diff_inverse less_imp_le_nat)
  then have "filter ((!) omask) [0..<length omask] =
               filter ((!) omask) [0..<j] @ j # filter ((!) omask) [Suc j..<length omask]"
    using assms(2) by simp
  moreover have "length (filter ((!) omask) [0..<j]) = active_before omask j"
    using assms(1) by (intro length_filter_upt) simp
  ultimately show ?thesis
    by (simp add: nth_append)
qed

lemma masked_update_extracted:
  assumes "length omask = length full"
  shows "masked_update omask (map ((!) full) (filter ((!) omask) [0..<length full])) full = full"
proof (rule nth_equalityI)
  show "length (masked_update omask (map ((!) full) (filter ((!) omask) [0..<length full])) full) = length full"
    by simp
next
  fix j
  assume "j < length (masked_update omask (map ((!) full) (filter ((!) omask) [0..<length full])) full)"
  then have j: "j < length full" by simp
  show "masked_update omask (map ((!) full) (filter ((!) omask) [0..<length full])) full ! j = full ! j"
  proof (cases "omask ! j")
    case True
    have "active_before omask j < active_before omask (Suc j)"
      using True j assms by (simp add: active_before_Suc)
    also have "\<dots> \<le> active_before omask (length omask)"
      using j assms by (intro active_before_mono) simp
    also have "\<dots> = length (filter ((!) omask) [0..<length full])"
      using assms by (simp add: length_filter_upt)
    finally have "active_before omask j < length (filter ((!) omask) [0..<length full])" .
    then show ?thesis
      using True j assms nth_filter_upt[of j omask]
      by (simp add: nth_masked_update)
  next
    case False
    then show ?thesis using j by (simp add: nth_masked_update)
  qed
qed

lemma optimisable_same [simp]: "m\<lparr>parametersVector := parametersVector m\<rparr> = m"
  by simp

text \<open>
  Claim C4. With a mask of the model's length set and an active-subset vector \<open>p\<close> that has
  one entry per \<open>true\<close> entry of the mask, \<^verbatim>\<open>setParameters\<close> installs a full vector that has
  at every active position \<open>j\<close> the entry of \<open>p\<close> whose index is the number of active
  positions before \<open>j\<close> (the entries of \<open>p\<close> are used in ascending order), and at every
  other position the model's previous value; nothing else in the trainer changes.
  \<^verbatim>\<open>getParameters\<close> returns the model's values at the active positions, in ascending
  order of position.
\<close>

theorem masked_set_and_get:
  assumes "maskSet st"
    and "length (optimisationMask st) = length (parametersVector (model st))"
    and "length p = active_before (optimisationMask st) (length (optimisationMask st))"
  shows "\<exists>new. setParameters p st = Inr (st\<lparr>model := (model st)\<lparr>parametersVector := new\<rparr>\<rparr>)
           \<and> length new = length (parametersVector (model st))
           \<and> (\<forall>j < length new. new ! j =
                 (if optimisationMask st ! j then p ! active_before (optimisationMask st) j
                  else parametersVector (model st) ! j))
           \<and> getParameters st =
                 Inr (map ((!) (parametersVector (model st)))
                        (filter ((!) (optimisationMask st)) [0..<length new]))"
proof (intro exI conjI)
  show "setParameters p st =
          Inr (st\<lparr>model := (model st)\<lparr>parametersVector :=
                 masked_update (optimisationMask st) p (parametersVector (model st))\<rparr>\<rparr>)"
    using assms by (intro setParameters_masked) simp_all
  show "length (masked_update (optimisationMask st) p (parametersVector (model st))) =
          length (parametersVector (model st))"
    by simp
  show "\<forall>j < length (masked_update (optimisationMask st) p (parametersVector (model st))).
          masked_update (optimisationMask st) p (parametersVector (model st)) ! j =
            (if optimisationMask st ! j then p ! active_before (optimisationMask st) j
             else parametersVector (model st) ! j)"
    using assms(2) by (simp add: nth_masked_update)
  show "getParameters st =
          Inr (map ((!) (parametersVector (model st)))
                 (filter ((!) (optimisationMask st))
                    [0..<length (masked_update (optimisationMask st) p (parametersVector (model st)))]))"
    using assms by (simp add: getParameters_masked)
qed

text \<open>An instance: the mask selects the first and the third of three parameters.\<close>

theorem masked_set_and_get_witness:
  "\<exists>new. setParameters [10, 30] (example_masked [True, False, True] [1, 2, 3]) =
            Inr ((example_masked [True, False, True] [1, 2, 3])
                   \<lparr>model := (example_model [1, 2, 3])\<lparr>parametersVector := new\<rparr>\<rparr>)
         \<and> new = [10, 2, 30]
         \<and> getParameters (example_masked [True, False, True] [1, 2, 3]) = Inr [1, 3]"
proof -
  let ?st = "example_masked [True, False, True] [1, 2, 3]"
  have m: "maskSet ?st"
    and l: "length (optimisationMask ?st) = length (parametersVector (model ?st))"
    and p: "length [10, 30 :: real] = active_before (optimisationMask ?st) (length (optimisationMask ?st))"
    by (simp_all add: example_defs active_before_def)
  from masked_set_and_get[OF m l p] obtain new where
    s: "setParameters [10, 30] ?st = Inr (?st\<lparr>model := (model ?st)\<lparr>parametersVector := new\<rparr>\<rparr>)"
    and n: "length new = length (parametersVector (model ?st))"
    and v: "\<forall>j<length new. new ! j =
              (if optimisationMask ?st ! j then [10, 30] ! active_before (optimisationMask ?st) j
               else parametersVector (model ?st) ! j)"
    and g: "getParameters ?st =
              Inr (map ((!) (parametersVector (model ?st)))
                     (filter ((!) (optimisationMask ?st)) [0..<length new]))"
    by blast
  from n have n3: "length new = 3" by (simp add: example_defs)
  from v n3 have "new ! 0 = 10" "new ! 1 = 2" "new ! 2 = 30"
    by (simp_all add: example_defs active_before_def)
  with n3 have new: "new = [10, 2, 30]"
    by (intro nth_equalityI) (auto simp: less_Suc_eq numeral_3_eq_3 numeral_2_eq_2)
  from g n3 have "getParameters ?st = Inr [1, 3]"
    by (simp add: example_defs eval_nat_numeral)
  with s new show ?thesis
    by (simp add: example_defs)
qed

text \<open>
  Claim C6. Whatever the model's full vector and the mask of the same length (and also
  when no mask is set), \<^verbatim>\<open>getParameters\<close> succeeds and \<^verbatim>\<open>setParameters\<close> applied to its
  unmodified result leaves the whole state, hence the model's full vector, as it was.
\<close>

theorem get_then_set_unchanged:
  assumes "maskSet st \<longrightarrow> length (optimisationMask st) = length (parametersVector (model st))"
  shows "\<exists>v. getParameters st = Inr v \<and> setParameters v st = Inr st"
proof (cases "maskSet st")
  case True
  let ?omask = "optimisationMask st" and ?full = "parametersVector (model st)"
  let ?v = "map ((!) ?full) (filter ((!) ?omask) [0..<length ?full])"
  from True assms have len: "length ?omask = length ?full" by simp
  have get: "getParameters st = Inr ?v"
    using True len by (rule getParameters_masked)
  have "active_before ?omask (length ?omask) \<le> length ?v"
    using len length_filter_upt[of "length ?omask" ?omask] by simp
  with True len have "setParameters ?v st =
      Inr (st\<lparr>model := (model st)\<lparr>parametersVector := masked_update ?omask ?v ?full\<rparr>\<rparr>)"
    by (rule setParameters_masked)
  also have "masked_update ?omask ?v ?full = ?full"
    using len by (rule masked_update_extracted)
  finally have "setParameters ?v st = Inr st" by simp
  with get show ?thesis by blast
next
  case False
  then show ?thesis
    by (simp add: getParameters_def getParametersVector_def setParameters_unmasked)
qed

text \<open>An instance with an all-false mask: the extracted vector is empty.\<close>

theorem get_then_set_unchanged_witness:
  "(\<exists>v. getParameters (example_masked [False, False] [1, 2]) = Inr v
        \<and> setParameters v (example_masked [False, False] [1, 2]) = Inr (example_masked [False, False] [1, 2]))
   \<and> getParameters (example_masked [False, False] [1, 2]) = Inr []"
proof -
  let ?st = "example_masked [False, False] [1, 2]"
  have "maskSet ?st \<longrightarrow> length (optimisationMask ?st) = length (parametersVector (model ?st))"
    by (simp add: example_defs)
  from get_then_set_unchanged[OF this]
  have "\<exists>v. getParameters ?st = Inr v \<and> setParameters v ?st = Inr ?st" .
  moreover have "getParameters ?st = Inr []"
    by (simp add: example_defs getParameters_def getParametersVector_def getParameters_loop_eq
        eval_nat_numeral)
  ultimately show ?thesis by blast
qed

text \<open>
  Claim C5 says that \<^verbatim>\<open>setParameters\<close> fails whenever the length of the active-subset
  vector differs from the number of \<open>true\<close> mask entries. The function has no such test: a
  vector with surplus entries is accepted. Here the mask has one active entry and the
  vector two; the call succeeds and installs the first.
\<close>

theorem setParameters_surplus_counterexample:
  "length [5, 7 :: real] \<noteq> active_before [True] (length [True])
   \<and> setParameters [5, 7] (example_masked [True] [0]) =
       Inr ((example_masked [True] [0])\<lparr>model := (example_model [0])\<lparr>parametersVector := [5]\<rparr>\<rparr>)"
proof -
  let ?st = "example_masked [True] [0]"
  have "setParameters [5, 7] ?st =
          Inr (?st\<lparr>model := (model ?st)\<lparr>parametersVector :=
                 masked_update (optimisationMask ?st) [5, 7] (parametersVector (model ?st))\<rparr>\<rparr>)"
    by (rule setParameters_masked) (simp_all add: example_defs active_before_def)
  then show ?thesis
    by (simp add: example_defs masked_update_def active_before_def)
qed

text \<open>Entries of \<open>p\<close> beyond the number of active positions are never read.\<close>

lemma masked_update_take:
  assumes "length omask = length full"
    and "k = active_before omask (length omask)"
  shows "masked_update omask (take k p) full = masked_update omask p full"
proof (rule nth_equalityI)
  show "length (masked_update omask (take k p) full) = length (masked_update omask p full)"
    by simp
next
  fix j
  assume "j < length (masked_update omask (take k p) full)"
  then have j: "j < length full" by simp
  show "masked_update omask (take k p) full ! j = masked_update omask p full ! j"
  proof (cases "omask ! j")
    case True
    have "active_before omask j < active_before omask (Suc j)"
      using True j assms by (simp add: active_before_Suc)
    also have "\<dots> \<le> k"
      unfolding assms(2) using j assms(1) by (intro active_before_mono) simp
    finally show ?thesis
      using j by (simp add: nth_masked_update)
  next
    case False
    then show ?thesis using j by (simp add: nth_masked_update)
  qed
qed

text \<open>
  Claim C5, amended. With a mask of the model's length set and \<open>k\<close> its number of \<open>true\<close>
  entries: a vector shorter than \<open>k\<close> makes \<^verbatim>\<open>setParameters\<close> fail, at the read \<^verbatim>\<open>p(pos)\<close>
  beyond the end of the vector; a vector longer than \<open>k\<close> is accepted, and the result
  is that of the call with its first \<open>k\<close> entries.
\<close>

theorem setParameters_length_mismatch:
  assumes "maskSet st"
    and "length (optimisationMask st) = length (parametersVector (model st))"
    and "k = active_before (optimisationMask st) (length (optimisationMask st))"
  shows "(length p < k \<longrightarrow> setParameters p st = Inl IndexOutOfRange)
       \<and> (k < length p \<longrightarrow>
            (\<exists>st'. setParameters p st = Inr st' \<and> setParameters (take k p) st = Inr st'))"
proof (intro conjI impI)
  assume "length p < k"
  with assms show "setParameters p st = Inl IndexOutOfRange"
    by (intro setParameters_masked_short) simp_all
next
  assume long: "k < length p"
  let ?omask = "optimisationMask st" and ?full = "parametersVector (model st)"
  have "setParameters p st = Inr (st\<lparr>model := (model st)\<lparr>parametersVector := masked_update ?omask p ?full\<rparr>\<rparr>)"
    using assms long by (intro setParameters_masked) simp_all
  moreover have "setParameters (take k p) st =
      Inr (st\<lparr>model := (model st)\<lparr>parametersVector := masked_update ?omask (take k p) ?full\<rparr>\<rparr>)"
    using assms long by (intro setParameters_masked) simp_all
  moreover have "masked_update ?omask (take k p) ?full = masked_update ?omask p ?full"
    using assms(2,3) by (rule masked_update_take)
  ultimately show "\<exists>st'. setParameters p st = Inr st' \<and> setParameters (take k p) st = Inr st'"
    by simp
qed

text \<open>An instance with two active entries: one value fails, three are cut to two.\<close>

theorem setParameters_length_mismatch_witness:
  "setParameters [5] (example_masked [True, True] [0, 0]) = Inl IndexOutOfRange
   \<and> (\<exists>st'. setParameters [5, 6, 7] (example_masked [True, True] [0, 0]) = Inr st'
          \<and> setParameters [5, 6] (example_masked [True, True] [0, 0]) = Inr st')"
proof -
  let ?st = "example_masked [True, True] [0, 0]"
  have m: "maskSet ?st"
    and l: "length (optimisationMask ?st) = length (parametersVector (model ?st))"
    and k: "2 = active_before (optimisationMask ?st) (length (optimisationMask ?st))"
    by (simp_all add: example_defs active_before_def)
  from setParameters_length_mismatch[OF m l k, of "[5]"]
  have "setParameters [5] ?st = Inl IndexOutOfRange" by simp
  moreover from setParameters_length_mismatch[OF m l k, of "[5, 6, 7]"]
  have "\<exists>st'. setParameters [5, 6, 7] ?st = Inr st' \<and> setParameters [5, 6] ?st = Inr st'"
    by simp
  ultimately show ?thesis by blast
qed


section \<open>The objective and gradient oracle\<close>

lemma counters_le_refl [simp]: "counters_le st st"
  by (simp add: counters_le_def)

lemma counters_le_trans: "counters_le st st' \<Longrightarrow> counters_le st' st'' \<Longrightarrow> counters_le st st''"
  by (auto simp: counters_le_def)

lemma setParameters_fits:
  assumes "fits st p"
  shows "setParameters p st = Inr (st\<lparr>model := (model st)\<lparr>parametersVector := full_point st p\<rparr>\<rparr>)"
proof (cases "maskSet st")
  case True
  with assms setParameters_masked[of st p] show ?thesis
    by (auto simp: fits_def full_point_def)
next
  case False
  with assms show ?thesis
    by (simp add: fits_def full_point_def setParameters_unmasked)
qed

lemma setParameters_frame:
  assumes "setParameters p st = Inr st'"
  shows "\<exists>v. st' = st\<lparr>model := (model st)\<lparr>parametersVector := v\<rparr>\<rparr>
             \<and> length v = length (parametersVector (model st))"
  using assms
  by (auto simp: setParameters_def setParametersVector_def split: if_splits sum.splits)

lemma setParameters_Inr_fits:
  assumes "setParameters p st = Inr st'"
    and "maskSet st \<longrightarrow> length (optimisationMask st) = length (parametersVector (model st))"
  shows "fits st p"
proof (cases "maskSet st")
  case True
  with assms(2) have len: "length (optimisationMask st) = length (parametersVector (model st))"
    by simp
  have "\<not> length p < active_before (optimisationMask st) (length (optimisationMask st))"
  proof
    assume "length p < active_before (optimisationMask st) (length (optimisationMask st))"
    with True len have "setParameters p st = Inl IndexOutOfRange"
      by (rule setParameters_masked_short)
    with assms(1) show False by simp
  qed
  with True len show ?thesis by (simp add: fits_def)
next
  case False
  with assms(1) show ?thesis
    by (auto simp: fits_def setParameters_def setParametersVector_def split: if_splits sum.splits)
qed

lemma errorFunction_fits:
  assumes "fits st p"
  shows "errorFunction p st =
           Inr (objective_at (model st) (full_point st p),
                st\<lparr>functionEvaluations := functionEvaluations st + 1,
                   model := (model st)\<lparr>parametersVector := full_point st p\<rparr>\<rparr>)"
proof -
  let ?st1 = "st\<lparr>functionEvaluations := functionEvaluations st + 1\<rparr>"
  from assms have "fits ?st1 p" by (auto simp: fits_def)
  then have "setParameters p ?st1 =
      Inr (?st1\<lparr>model := (model ?st1)\<lparr>parametersVector := full_point ?st1 p\<rparr>\<rparr>)"
    by (rule setParameters_fits)
  then show ?thesis
    by (simp add: errorFunction_def objective_def full_point_def)
qed

lemma errorFunction_counters:
  assumes "errorFunction p st = Inr (f, st')"
  shows "functionEvaluations st' = functionEvaluations st + 1"
    and "gradientEvaluations st' = gradientEvaluations st"
proof -
  from assms obtain st1 where
    "setParameters p (st\<lparr>functionEvaluations := functionEvaluations st + 1\<rparr>) = Inr st1"
    and "st' = st1"
    by (auto simp: errorFunction_def split: sum.splits)
  then obtain v where "st' = st\<lparr>functionEvaluations := functionEvaluations st + 1,
      model := (model st)\<lparr>parametersVector := v\<rparr>\<rparr>"
    using setParameters_frame by fastforce
  then show "functionEvaluations st' = functionEvaluations st + 1"
    and "gradientEvaluations st' = gradientEvaluations st"
    by simp_all
qed

lemma length_full_point:
  "fits st p \<Longrightarrow> length (full_point st p) = length (parametersVector (model st))"
  by (simp add: fits_def full_point_def split: if_splits)

lemma masked_update_twice:
  "masked_update omask p (masked_update omask q full) = masked_update omask p full"
  by (rule nth_equalityI) (simp_all add: nth_masked_update)

lemma full_point_after:
  "full_point (st\<lparr>functionEvaluations := n, model := (model st)\<lparr>parametersVector := full_point st q\<rparr>\<rparr>) p
     = full_point st p"
  by (simp add: full_point_def masked_update_twice)

lemma fits_after:
  "fits st q \<Longrightarrow>
   fits (st\<lparr>functionEvaluations := n, model := (model st)\<lparr>parametersVector := full_point st q\<rparr>\<rparr>) p
     = fits st p"
  by (simp add: fits_def full_point_def split: if_splits)

lemma fits_length: "length p = length q \<Longrightarrow> fits st p = fits st q"
  by (simp add: fits_def)

lemma fits_functionEvaluations [simp]:
  "fits (st\<lparr>functionEvaluations := n\<rparr>) p = fits st p"
  by (simp add: fits_def cong: if_cong)

lemma getParameters_functionEvaluations [simp]:
  "getParameters (st\<lparr>functionEvaluations := n\<rparr>) = getParameters st"
  by (simp add: getParameters_def Let_def cong: if_cong)

lemma getParameters_fits:
  assumes "fits st p"
  shows "getParameters st = Inr (active_values st)"
proof (cases "maskSet st")
  case True
  with assms getParameters_masked[of st] show ?thesis
    by (auto simp: fits_def active_values_def)
next
  case False
  then show ?thesis
    by (simp add: getParameters_def getParametersVector_def active_values_def)
qed

lemma getParameters_Inr:
  assumes "getParameters st = Inr v"
  shows "maskSet st \<longrightarrow> length (optimisationMask st) = length (parametersVector (model st))"
  using assms
  by (auto simp: getParameters_def getParametersVector_def Let_def split: if_splits)

lemma fits_active_values:
  assumes "fits st p"
  shows "fits st (active_values st)"
proof (cases "maskSet st")
  case True
  with assms have "length (optimisationMask st) = length (parametersVector (model st))"
    by (simp add: fits_def)
  with True length_filter_upt[of "length (optimisationMask st)" "optimisationMask st"]
  show ?thesis
    by (simp add: fits_def active_values_def)
next
  case False
  then show ?thesis by (simp add: fits_def active_values_def)
qed

lemma full_point_active_values:
  assumes "fits st p"
  shows "full_point st (active_values st) = parametersVector (model st)"
proof (cases "maskSet st")
  case True
  with assms have "length (optimisationMask st) = length (parametersVector (model st))"
    by (simp add: fits_def)
  with True masked_update_extracted[of "optimisationMask st" "parametersVector (model st)"]
  show ?thesis
    by (simp add: full_point_def active_values_def)
next
  case False
  then show ?thesis by (simp add: full_point_def active_values_def)
qed

lemma lineFunction_fits:
  assumes "length param = length direction" and "fits st param"
  shows "lineFunction param lambda direction st =
           Inr (line_value st param direction lambda,
                st\<lparr>functionEvaluations := functionEvaluations st + 1\<rparr>)"
proof -
  let ?point = "map2 (+) param (vec_scale lambda direction)"
  let ?st1 = "st\<lparr>functionEvaluations := functionEvaluations st + 1,
                  model := (model st)\<lparr>parametersVector := full_point st ?point\<rparr>\<rparr>"
  have get: "getParameters st = Inr (active_values st)"
    using assms(2) by (rule getParameters_fits)
  have add: "vec_add param (vec_scale lambda direction) = Inr ?point"
    using assms(1) by (simp add: vec_add_def vec_scale_def)
  have "length ?point = length param"
    using assms(1) by (simp add: vec_scale_def)
  with assms(2) have fp: "fits st ?point"
    by (simp add: fits_length[of ?point param])
  then have ev: "errorFunction ?point st = Inr (objective_at (model st) (full_point st ?point), ?st1)"
    by (rule errorFunction_fits)
  have "fits ?st1 (active_values st)"
    using fp assms(2) by (simp add: fits_after fits_active_values)
  then have "setParameters (active_values st) ?st1 =
      Inr (?st1\<lparr>model := (model ?st1)\<lparr>parametersVector := full_point ?st1 (active_values st)\<rparr>\<rparr>)"
    by (rule setParameters_fits)
  moreover have "full_point ?st1 (active_values st) = parametersVector (model st)"
    using assms(2) by (simp add: full_point_after full_point_active_values)
  ultimately have "setParameters (active_values st) ?st1 =
      Inr (st\<lparr>functionEvaluations := functionEvaluations st + 1\<rparr>)"
    by simp
  with get add ev show ?thesis
    by (simp add: lineFunction_def line_value_def)
qed

lemma lineFunction_Inr:
  assumes "lineFunction param lambda direction st = Inr (f, st')"
  shows "length param = length direction \<and> fits st param"
proof -
  from assms obtain xOld point st1 where
    get: "getParameters st = Inr xOld"
    and add: "vec_add param (vec_scale lambda direction) = Inr point"
    and ev: "errorFunction point st = Inr (f, st1)"
    by (auto simp: lineFunction_def split: sum.splits)
  from add have len: "length param = length direction" and point: "length point = length param"
    by (auto simp: vec_add_def vec_scale_def split: if_splits)
  let ?st0 = "st\<lparr>functionEvaluations := functionEvaluations st + 1\<rparr>"
  from ev have "setParameters point ?st0 = Inr st1"
    by (auto simp: errorFunction_def split: sum.splits)
  moreover from getParameters_Inr[OF get]
  have "maskSet ?st0 \<longrightarrow> length (optimisationMask ?st0) = length (parametersVector (model ?st0))"
    by simp
  ultimately have "fits ?st0 point"
    by (rule setParameters_Inr_fits)
  then have "fits st point" by simp
  with point have "fits st param" by (simp add: fits_length[of point param])
  with len show ?thesis by simp
qed

text \<open>
  Claim C10. Whenever \<^verbatim>\<open>lineFunction\<close> returns, the state it leaves differs from the state
  before the call in the function-evaluation counter only: the model's full vector, and
  so the result of \<^verbatim>\<open>getParameters\<close>, are those before the call; and the value
  returned is the objective at the full vector of \<open>param + lambda * direction\<close>. It
  returns whenever \<open>param\<close> and \<open>direction\<close> have the same length and \<open>param\<close> fits the
  trainer.
\<close>

theorem lineFunction_restores:
  "(length param = length direction \<and> fits st param \<longrightarrow>
      (\<exists>f st'. lineFunction param lambda direction st = Inr (f, st')))
   \<and> (\<forall>f st'. lineFunction param lambda direction st = Inr (f, st') \<longrightarrow>
        getParameters st' = getParameters st
        \<and> parametersVector (model st') = parametersVector (model st)
        \<and> st' = st\<lparr>functionEvaluations := functionEvaluations st + 1\<rparr>
        \<and> (\<exists>point. vec_add param (vec_scale lambda direction) = Inr point
              \<and> f = objective_at (model st) (full_point st point)))"
proof (intro conjI impI allI)
  assume "length param = length direction \<and> fits st param"
  then show "\<exists>f st'. lineFunction param lambda direction st = Inr (f, st')"
    by (simp add: lineFunction_fits)
next
  fix f st'
  assume ret: "lineFunction param lambda direction st = Inr (f, st')"
  from lineFunction_Inr[OF ret] have len: "length param = length direction"
    and fit: "fits st param"
    by simp_all
  from lineFunction_fits[OF len fit, of lambda] ret
  have f: "f = line_value st param direction lambda"
    and st': "st' = st\<lparr>functionEvaluations := functionEvaluations st + 1\<rparr>"
    by simp_all
  from st' show "getParameters st' = getParameters st"
    by simp
  from st' show "parametersVector (model st') = parametersVector (model st)"
    by simp
  from st' show "st' = st\<lparr>functionEvaluations := functionEvaluations st + 1\<rparr>" .
  from len f show "\<exists>point. vec_add param (vec_scale lambda direction) = Inr point
      \<and> f = objective_at (model st) (full_point st point)"
    by (simp add: vec_add_def vec_scale_def line_value_def)
qed

text \<open>
  An instance: from the parameters \<open>(1, 2)\<close> with the second one masked out, the step
  \<open>3\<close> along \<open>(1)\<close> evaluates the objective at \<open>(4, 2)\<close> and leaves \<open>(1, 2)\<close> in the
  model.
\<close>

theorem lineFunction_restores_witness:
  "lineFunction [1] 3 [1] (example_masked [True, False] [1, 2]) =
     Inr (20, (example_masked [True, False] [1, 2])\<lparr>functionEvaluations := 1\<rparr>)
   \<and> getParameters ((example_masked [True, False] [1, 2])\<lparr>functionEvaluations := 1\<rparr>) = Inr [1]"
proof -
  let ?st = "example_masked [True, False] [1, 2]"
  have fit: "length [1 :: real] = length [1 :: real] \<and> fits ?st [1]"
    by (simp add: fits_def example_defs active_before_def)
  with lineFunction_restores[of "[1]" "[1]" ?st 3]
  obtain f st' where ret: "lineFunction [1] 3 [1] ?st = Inr (f, st')"
    by blast
  with lineFunction_restores[of "[1]" "[1]" ?st 3]
  have "getParameters st' = getParameters ?st"
    and "st' = ?st\<lparr>functionEvaluations := functionEvaluations ?st + 1\<rparr>"
    and "\<exists>point. vec_add [1] (vec_scale 3 [1]) = Inr point
           \<and> f = objective_at (model ?st) (full_point ?st point)"
    by blast+
  moreover have "getParameters ?st = Inr [1]"
    by (simp add: example_defs getParameters_def getParametersVector_def getParameters_loop_eq
        eval_nat_numeral)
  moreover have "functionEvaluations ?st = 0"
    by (simp add: example_defs)
  ultimately have "st' = ?st\<lparr>functionEvaluations := 1\<rparr>" "getParameters st' = Inr [1]" "f = 20"
    by (simp_all add: vec_add_def vec_scale_def full_point_def masked_update_def active_before_def
        example_defs example_objective_def eval_nat_numeral)
  with ret show ?thesis by simp
qed

text \<open>
  Claim C3. For an index \<open>i\<close> inside a parameter vector that fits the trainer,
  \<^verbatim>\<open>calculateNumericalGradient\<close> evaluates the objective twice, first with \<open>epsilon\<close> added
  to entry \<open>i\<close> and then with \<open>epsilon\<close> subtracted from it, and returns the difference of
  the two values divided by \<open>2 * epsilon\<close>; the function-evaluation counter has grown by
  two.
\<close>

theorem calculateNumericalGradient_central_difference:
  assumes "0 \<le> i" and "i < int (length params)" and "fits st params"
  shows "\<exists>fplus fminus st1 st2.
           errorFunction (params[nat i := params ! nat i + epsilon st]) st = Inr (fplus, st1)
         \<and> errorFunction (params[nat i := params ! nat i - epsilon st]) st1 = Inr (fminus, st2)
         \<and> calculateNumericalGradient i params st = Inr ((fplus - fminus) / (2 * epsilon st), st2)
         \<and> fplus = objective_at (model st)
                      (full_point st (params[nat i := params ! nat i + epsilon st]))
         \<and> fminus = objective_at (model st)
                       (full_point st (params[nat i := params ! nat i - epsilon st]))
         \<and> functionEvaluations st2 = functionEvaluations st + 2"
proof -
  let ?plus = "params[nat i := params ! nat i + epsilon st]"
  let ?minus = "params[nat i := params ! nat i - epsilon st]"
  let ?st1 = "st\<lparr>functionEvaluations := functionEvaluations st + 1,
                  model := (model st)\<lparr>parametersVector := full_point st ?plus\<rparr>\<rparr>"
  let ?st2 = "?st1\<lparr>functionEvaluations := functionEvaluations ?st1 + 1,
                  model := (model ?st1)\<lparr>parametersVector := full_point ?st1 ?minus\<rparr>\<rparr>"
  have fp: "fits st ?plus" and fm: "fits st ?minus"
    using assms(3) by (simp_all add: fits_length[of ?plus params] fits_length[of ?minus params])
  have e1: "errorFunction ?plus st = Inr (objective_at (model st) (full_point st ?plus), ?st1)"
    using fp by (rule errorFunction_fits)
  have "fits ?st1 ?minus"
    using fp fm by (simp add: fits_after)
  then have "errorFunction ?minus ?st1 =
      Inr (objective_at (model ?st1) (full_point ?st1 ?minus), ?st2)"
    by (rule errorFunction_fits)
  then have e2: "errorFunction ?minus ?st1 =
      Inr (objective_at (model st) (full_point st ?minus), ?st2)"
    by (simp add: full_point_after)
  have get: "vec_get params i = Inr (params ! nat i)"
    and set_plus: "vec_set params i (params ! nat i + epsilon st) = Inr ?plus"
    and set_minus: "vec_set params i (params ! nat i - epsilon st) = Inr ?minus"
    using assms(1,2) by (simp_all add: vec_get_def vec_set_def)
  have r: "calculateNumericalGradient i params st =
      Inr ((objective_at (model st) (full_point st ?plus)
            - objective_at (model st) (full_point st ?minus)) / (2 * epsilon st), ?st2)"
    by (simp add: calculateNumericalGradient_def get set_plus set_minus e1 e2)
  have n: "functionEvaluations ?st2 = functionEvaluations st + 2"
    by simp
  show ?thesis
    by (intro exI conjI) (rule e1, rule e2, rule r, rule refl, rule refl, rule n)
qed

text \<open>
  An instance: at \<open>(1, 2)\<close> with \<open>epsilon = 1/2\<close>, the component for index \<open>1\<close> of the
  sum of squares is \<open>((1 + 25/4) - (1 + 9/4)) / 1 = 4\<close>.
\<close>

theorem calculateNumericalGradient_central_difference_witness:
  "\<exists>st2. calculateNumericalGradient 1 [1, 2] ((ModelTrainer (example_model [0, 0]))\<lparr>epsilon := 1 / 2\<rparr>)
            = Inr (4, st2)
         \<and> functionEvaluations st2 = 2"
proof -
  let ?st = "(ModelTrainer (example_model [0, 0]))\<lparr>epsilon := 1 / 2\<rparr>"
  have "(0 :: int) \<le> 1" and "(1 :: int) < int (length [1, 2 :: real])" and "fits ?st [1, 2]"
    by (simp_all add: fits_def example_defs)
  from calculateNumericalGradient_central_difference[OF this]
  obtain fplus fminus st2 where
    "calculateNumericalGradient 1 [1, 2] ?st = Inr ((fplus - fminus) / (2 * epsilon ?st), st2)"
    and "fplus = objective_at (model ?st) (full_point ?st ([1, 2][nat 1 := [1, 2] ! nat 1 + epsilon ?st]))"
    and "fminus = objective_at (model ?st) (full_point ?st ([1, 2][nat 1 := [1, 2] ! nat 1 - epsilon ?st]))"
    and "functionEvaluations st2 = functionEvaluations ?st + 2"
    by blast
  then show ?thesis
    by (simp add: example_defs full_point_def example_objective_def)
qed

lemma calculateNumericalGradient_counters:
  assumes "calculateNumericalGradient i params st = Inr (d, st')"
  shows "functionEvaluations st' = functionEvaluations st + 2"
    and "gradientEvaluations st' = gradientEvaluations st"
proof -
  from assms obtain p1 f1 st1 p2 f2 where
    e1: "errorFunction p1 st = Inr (f1, st1)" and e2: "errorFunction p2 st1 = Inr (f2, st')"
    by (auto simp: calculateNumericalGradient_def split: sum.splits)
  from errorFunction_counters[OF e1] errorFunction_counters[OF e2]
  show "functionEvaluations st' = functionEvaluations st + 2"
    and "gradientEvaluations st' = gradientEvaluations st"
    by simp_all
qed

lemma numericalGradients_loop_counters:
  assumes "numericalGradients_loop params numParams i g st = Inr (g', st')"
  shows "functionEvaluations st' = functionEvaluations st + 2 * int (numParams - i)
       \<and> gradientEvaluations st' = gradientEvaluations st"
  using assms
proof (induction params numParams i g st rule: numericalGradients_loop.induct)
  case (1 params numParams i g st)
  show ?case
  proof (cases "i < numParams")
    case True
    with "1.prems" obtain gi st1 g1 where
      c: "calculateNumericalGradient (int i) params st = Inr (gi, st1)"
      and s: "vec_set g (int i) gi = Inr g1"
      and r: "numericalGradients_loop params numParams (i + 1) g1 st1 = Inr (g', st')"
      by (subst (asm) numericalGradients_loop.simps) (auto split: sum.splits)
    from "1.IH"[OF True c refl s r] calculateNumericalGradient_counters[OF c] True
    show ?thesis by simp
  next
    case False
    with "1.prems" show ?thesis
      by (subst (asm) numericalGradients_loop.simps) simp
  qed
qed

lemma setParameters_counters:
  assumes "setParameters p st = Inr st'"
  shows "functionEvaluations st' = functionEvaluations st"
    and "gradientEvaluations st' = gradientEvaluations st"
  using setParameters_frame[OF assms] by auto

lemma errorGradients_counters:
  assumes "errorGradients params st = Inr (g, st')"
  shows "if analyticGradients st
         then gradientEvaluations st' = gradientEvaluations st + 1
              \<and> functionEvaluations st' = functionEvaluations st
         else gradientEvaluations st' = gradientEvaluations st
              \<and> functionEvaluations st' = functionEvaluations st + 2 * int (length params)"
proof (cases "analyticGradients st")
  case True
  with assms obtain st1 where
    "setParameters params (st\<lparr>gradientEvaluations := gradientEvaluations st + 1\<rparr>) = Inr st1"
    and "st' = st1"
    by (auto simp: errorGradients_def split: sum.splits)
  with setParameters_counters[of params "st\<lparr>gradientEvaluations := gradientEvaluations st + 1\<rparr>" st']
    True show ?thesis by simp
next
  case False
  with assms obtain st1 where
    s: "setParameters params st = Inr st1"
    and l: "numericalGradients_loop params (length params) 0 (replicate (length params) 0) st1 = Inr (g, st')"
    by (auto simp: errorGradients_def numericalGradients_def Let_def split: sum.splits)
  from numericalGradients_loop_counters[OF l] setParameters_counters[OF s] False
  show ?thesis by simp
qed


lemma checkGradient_loop_counters:
  assumes "checkGradient_loop xOld numParams i pos gNew rows st = Inr (rows', st')"
  shows "counters_le st st'"
  using assms
proof (induction xOld numParams i pos gNew rows st rule: checkGradient_loop.induct)
  case (1 xOld numParams i pos gNew rows st)
  show ?case
  proof (cases "i < numParams")
    case False
    with "1.prems" show ?thesis
      by (subst (asm) checkGradient_loop.simps) simp
  next
    case True
    note inside = this
    show ?thesis
    proof (cases "maskSet st")
      case False
      with inside "1.prems" obtain delta st1 gi where
        c: "calculateNumericalGradient (int i) xOld st = Inr (delta, st1)"
        and g: "vec_get gNew (int i) = Inr gi"
        and r: "checkGradient_loop xOld numParams (i + 1) pos gNew
                  (rows @ [gradcheck_row i [] delta gi]) st1 = Inr (rows', st')"
        by (subst (asm) checkGradient_loop.simps) (auto split: sum.splits)
      from "1.IH"(3)[OF inside False c refl g r] calculateNumericalGradient_counters[OF c]
      show ?thesis by (simp add: counters_le_def)
    next
      case True
      with inside "1.prems" obtain active where
        m: "vec_get (optimisationMask st) (int i) = Inr active"
        by (subst (asm) checkGradient_loop.simps) (auto split: sum.splits)
      show ?thesis
      proof (cases active)
        case inactive: False
        with inside True m "1.prems" obtain gNew1 gi where
          s: "vec_set gNew (int i) 0 = Inr gNew1"
          and g: "vec_get gNew1 (int i) = Inr gi"
          and r: "checkGradient_loop xOld numParams (i + 1) pos gNew1
                    (rows @ [gradcheck_row i ''x'' 0 gi]) st = Inr (rows', st')"
          by (subst (asm) checkGradient_loop.simps) (auto split: sum.splits)
        from inactive have "active = False" by simp
        from "1.IH"(2)[OF inside True m this s g r]
        show ?thesis .
      next
        case act: True
        with inside True m "1.prems" obtain delta st1 gi where
          c: "calculateNumericalGradient (int pos) xOld st = Inr (delta, st1)"
          and g: "vec_get gNew (int i) = Inr gi"
          and r: "checkGradient_loop xOld numParams (i + 1) (pos + 1) gNew
                    (rows @ [gradcheck_row i '' '' delta gi]) st1 = Inr (rows', st')"
          by (subst (asm) checkGradient_loop.simps) (auto split: sum.splits)
        from act have "active = True" by simp
        from "1.IH"(1)[OF inside True m this c refl g r]
          calculateNumericalGradient_counters[OF c]
        show ?thesis by (simp add: counters_le_def)
      qed
    qed
  qed
qed

section \<open>The evaluation counters\<close>


lemma lineFunction_state:
  assumes "lineFunction param lambda direction st = Inr (f, st')"
  shows "st' = st\<lparr>functionEvaluations := functionEvaluations st + 1\<rparr>"
proof -
  from lineFunction_Inr[OF assms] have "length param = length direction" and "fits st param"
    by simp_all
  from lineFunction_fits[OF this, of lambda] assms show ?thesis by simp
qed

lemma lineFunction_counters:
  assumes "lineFunction param lambda direction st = Inr (f, st')"
  shows "counters_le st st'"
  using lineFunction_state[OF assms] by (simp add: counters_le_def)

lemma bracketMinimum_trial_counters:
  assumes "bracketMinimum_trial K params direction a b c fa fb fc fu bracket_found st = Inr (x, st')"
  shows "counters_le st st'"
  using assms unfolding bracketMinimum_trial_def Let_def
  by (auto dest: lineFunction_counters split: if_splits sum.splits)

lemma bracketMinimum_shrink_counters:
  assumes "bracketMinimum_shrink K params direction a b c fa fb st = Some y"
  shows "\<forall>br st'. y = Inr (br, st') \<longrightarrow> counters_le st st'"
proof (rule bracketMinimum_shrink.raw_induct[where
      P = "\<lambda>K params direction a b c fa fb st y. \<forall>br st'. y = Inr (br, st') \<longrightarrow> counters_le st st'",
      OF _ assms], goal_cases)
  case (1 shrink K params direction a b c fa fb st y)
  show ?case
  proof (cases "fb > fa")
    case False
    with 1(2) show ?thesis by auto
  next
    case True
    show ?thesis
    proof (intro allI impI)
      fix br st'
      assume y: "y = Inr (br, st')"
      with True 1(2) obtain fb' st1 where
        l: "lineFunction params (a + (b - a) / PHI K) direction st = Inr (fb', st1)"
        and r: "shrink K params direction a (a + (b - a) / PHI K) b fa fb' st1 = Some y"
        by (auto split: sum.splits)
      from 1(1)[OF r] y have "counters_le st1 st'" by blast
      with lineFunction_counters[OF l] show "counters_le st st'"
        by (rule counters_le_trans)
    qed
  qed
qed

lemma bracketMinimum_expand_counters:
  assumes "bracketMinimum_expand K params direction a b c fa fb fc fu bracket_found st = Some y"
  shows "\<forall>br st'. y = Inr (br, st') \<longrightarrow> counters_le st st'"
proof (rule bracketMinimum_expand.raw_induct[where
      P = "\<lambda>K params direction a b c fa fb fc fu bracket_found st y.
             \<forall>br st'. y = Inr (br, st') \<longrightarrow> counters_le st st'",
      OF _ assms], goal_cases)
  case (1 expand K params direction a b c fa fb fc fu bracket_found st y)
  show ?case
  proof (cases "fb > fc")
    case False
    with 1(2) show ?thesis by auto
  next
    case True
    show ?thesis
    proof (intro allI impI)
      fix br st'
      assume y: "y = Inr (br, st')"
      with True 1(2) obtain x st1 where
        t: "bracketMinimum_trial K params direction a b c fa fb fc fu bracket_found st = Inr (x, st1)"
        by (auto split: sum.splits)
      note le1 = bracketMinimum_trial_counters[OF t]
      show "counters_le st st'"
      proof (cases x)
        case (Return br')
        with True 1(2) t y have "st' = st1" by simp
        with le1 show ?thesis by simp
      next
        case (Proceed b' c' u fu' bracket_found')
        show ?thesis
        proof (cases bracket_found')
          case True
          with \<open>fb > fc\<close> 1(2) t Proceed
          have "expand K params direction b' c' u fb fc fu' fu' bracket_found' st1 = Some y"
            by simp
          from 1(1)[OF this] y have "counters_le st1 st'" by blast
          with le1 show ?thesis by (rule counters_le_trans)
        next
          case False
          with \<open>fb > fc\<close> 1(2) t Proceed y obtain fu'' st2 where
            l: "lineFunction params u direction st1 = Inr (fu'', st2)"
            and r: "expand K params direction b' c' u fb fc fu'' fu'' bracket_found' st2 = Some y"
            by (auto split: sum.splits)
          from 1(1)[OF r] y have "counters_le st2 st'" by blast
          with le1 lineFunction_counters[OF l] show ?thesis
            by (blast intro: counters_le_trans)
        qed
      qed
    qed
  qed
qed

lemma bracketMinimum_counters:
  assumes "bracketMinimum K a b fa params direction st = Some (Inr (br, st'))"
  shows "counters_le st st'"
proof -
  from assms obtain fb st1 where
    l1: "lineFunction params b direction st = Inr (fb, st1)"
    by (auto simp: bracketMinimum_def split: sum.splits)
  show ?thesis
  proof (cases "fb > fa")
    case True
    with assms l1 obtain fb' st2 where
      l2: "lineFunction params (a + (b - a) / PHI K) direction st1 = Inr (fb', st2)"
      and r: "bracketMinimum_shrink K params direction a (a + (b - a) / PHI K) b fa fb' st2
                = Some (Inr (br, st'))"
      by (auto simp: bracketMinimum_def split: sum.splits)
    from bracketMinimum_shrink_counters[OF r] have "counters_le st2 st'" by blast
    with lineFunction_counters[OF l1] lineFunction_counters[OF l2] show ?thesis
      by (blast intro: counters_le_trans)
  next
    case False
    with assms l1 obtain fc st2 where
      l2: "lineFunction params (b + PHI K * (b - a)) direction st1 = Inr (fc, st2)"
      and r: "bracketMinimum_expand K params direction a b (b + PHI K * (b - a)) fa fb fc 0 False st2
                = Some (Inr (br, st'))"
      by (auto simp: bracketMinimum_def split: sum.splits)
    from bracketMinimum_expand_counters[OF r] have "counters_le st2 st'" by blast
    with lineFunction_counters[OF l1] lineFunction_counters[OF l2] show ?thesis
      by (blast intro: counters_le_trans)
  qed
qed

lemma lineMinimiser_iteration_counters:
  assumes "lineMinimiser_iteration K params direction xm tol1 s st = Inr (s', st')"
  shows "counters_le st st'"
  using assms unfolding lineMinimiser_iteration_def Let_def
  by (auto dest: lineFunction_counters split: prod.splits sum.splits)

lemma lineMinimiser_loop_counters:
  assumes "lineMinimiser_loop K params direction n s st = Inr (r, st')"
  shows "counters_le st st'"
  using assms
proof (induction K params direction n s st rule: lineMinimiser_loop.induct)
  case (1 K params direction n s st)
  let ?xm = "(1 / 2) * (ls_br_min s + ls_br_max s)"
  let ?tol1 = "TOL K * \<bar>ls_x s\<bar> + TINY K"
  show ?case
  proof (cases "n \<le> lineMinimiserIterations st \<and> \<not> lineMinimiser_converged ?xm s st")
    case False
    with "1.prems" have "st' = st \<or> st' = st\<lparr>functionValue := ls_fx s\<rparr>"
      by (subst (asm) lineMinimiser_loop.simps) (auto simp: Let_def split: if_splits)
    then show ?thesis by (auto simp: counters_le_def)
  next
    case True
    with "1.prems" obtain s1 st1 where
      i: "lineMinimiser_iteration K params direction ?xm ?tol1 s st = Inr (s1, st1)"
      and r: "lineMinimiser_loop K params direction (n + 1) s1 st1 = Inr (r, st')"
      by (subst (asm) lineMinimiser_loop.simps) (auto simp: Let_def split: sum.splits)
    from True have "n \<le> lineMinimiserIterations st" and "\<not> lineMinimiser_converged ?xm s st"
      by simp_all
    from "1.IH"[OF this(1) refl refl this(2) i refl r] lineMinimiser_iteration_counters[OF i]
    show ?thesis by (blast intro: counters_le_trans)
  qed
qed

lemma lineMinimiser_counters:
  assumes "lineMinimiser K fa params direction st = Some (Inr (r, st'))"
  shows "counters_le st st'"
proof -
  from assms obtain br_min br_mid br_max st1 fx st2 where
    b: "bracketMinimum K 0 1 fa params direction st = Some (Inr ((br_min, br_mid, br_max), st1))"
    and l: "lineFunction params br_mid direction st1 = Inr (fx, st2)"
    and m: "lineMinimiser_loop K params direction 1
              \<lparr> ls_br_min = br_min, ls_br_max = br_max, ls_w = br_mid, ls_v = br_mid,
                ls_x = br_mid, ls_e = 0, ls_d = 0, ls_fw = fx, ls_fv = fx, ls_fx = fx \<rparr> st2
              = Inr (r, st')"
    by (auto simp: lineMinimiser_def split: option.splits sum.splits prod.splits)
  from bracketMinimum_counters[OF b] lineFunction_counters[OF l] lineMinimiser_loop_counters[OF m]
  show ?thesis by (blast intro: counters_le_trans)
qed

text \<open>
  Claim C7 says that every call of \<^verbatim>\<open>errorGradients\<close> adds one to \<^verbatim>\<open>gradientEvaluations\<close>.
  The function counts only in its analytic branch. With \<^verbatim>\<open>analyticGradients\<close> switched
  off, the gradient of the sum of squares at \<open>(1)\<close> is computed from two objective
  evaluations and \<^verbatim>\<open>gradientEvaluations\<close> keeps its value.
\<close>

theorem errorGradients_numerical_counterexample:
  "errorGradients [1] ((ModelTrainer (example_model [1]))\<lparr>analyticGradients := False\<rparr>) =
     Inr ([2], (ModelTrainer (example_model [999999 / 1000000]))
                 \<lparr>analyticGradients := False, functionEvaluations := 2\<rparr>)
   \<and> gradientEvaluations ((ModelTrainer (example_model [999999 / 1000000]))
                 \<lparr>analyticGradients := False, functionEvaluations := 2\<rparr>)
       = gradientEvaluations ((ModelTrainer (example_model [1]))\<lparr>analyticGradients := False\<rparr>)"
  by (simp add: errorGradients_def numericalGradients_def numericalGradients_loop.simps
      calculateNumericalGradient_def errorFunction_def setParameters_def setParametersVector_def
      objective_def vec_get_def vec_set_def example_defs example_objective_def)

text \<open>
  Claim C7, amended. A returning call of \<^verbatim>\<open>errorFunction\<close> adds exactly one to
  \<^verbatim>\<open>functionEvaluations\<close> and leaves \<^verbatim>\<open>gradientEvaluations\<close>. A returning call of
  \<^verbatim>\<open>errorGradients\<close> adds exactly one to \<^verbatim>\<open>gradientEvaluations\<close> and leaves
  \<^verbatim>\<open>functionEvaluations\<close> when \<^verbatim>\<open>analyticGradients\<close> is set; when it is not set, the call
  leaves \<^verbatim>\<open>gradientEvaluations\<close> and adds two objective evaluations per parameter to
  \<^verbatim>\<open>functionEvaluations\<close>. No member function that returns has decreased either counter.
\<close>

theorem evaluation_counters:
  "(errorFunction params st = Inr (f, st1) \<longrightarrow>
      functionEvaluations st1 = functionEvaluations st + 1
      \<and> gradientEvaluations st1 = gradientEvaluations st)
   \<and> (errorGradients params st = Inr (g, st2) \<longrightarrow>
        (if analyticGradients st
         then gradientEvaluations st2 = gradientEvaluations st + 1
              \<and> functionEvaluations st2 = functionEvaluations st
         else gradientEvaluations st2 = gradientEvaluations st
              \<and> functionEvaluations st2 = functionEvaluations st + 2 * int (length params)))
   \<and> (setParameters params st = Inr st3 \<longrightarrow> counters_le st st3)
   \<and> (calculateNumericalGradient i params st = Inr (d, st4) \<longrightarrow> counters_le st st4)
   \<and> (numericalGradients params st = Inr (g', st5) \<longrightarrow> counters_le st st5)
   \<and> (checkGradient st = Inr (rows, st6) \<longrightarrow> counters_le st st6)
   \<and> (lineFunction params lambda direction st = Inr (f', st7) \<longrightarrow> counters_le st st7)
   \<and> (bracketMinimum K a b fa params direction st = Some (Inr (br, st8)) \<longrightarrow> counters_le st st8)
   \<and> (lineMinimiser K fa params direction st = Some (Inr (r, st9)) \<longrightarrow> counters_le st st9)"
proof (intro conjI impI)
  assume "errorFunction params st = Inr (f, st1)"
  then show "functionEvaluations st1 = functionEvaluations st + 1"
    and "gradientEvaluations st1 = gradientEvaluations st"
    by (rule errorFunction_counters)+
next
  assume "errorGradients params st = Inr (g, st2)"
  then show "if analyticGradients st
         then gradientEvaluations st2 = gradientEvaluations st + 1
              \<and> functionEvaluations st2 = functionEvaluations st
         else gradientEvaluations st2 = gradientEvaluations st
              \<and> functionEvaluations st2 = functionEvaluations st + 2 * int (length params)"
    by (rule errorGradients_counters)
next
  assume "setParameters params st = Inr st3"
  from setParameters_counters[OF this] show "counters_le st st3"
    by (simp add: counters_le_def)
next
  assume "calculateNumericalGradient i params st = Inr (d, st4)"
  from calculateNumericalGradient_counters[OF this] show "counters_le st st4"
    by (simp add: counters_le_def)
next
  assume "numericalGradients params st = Inr (g', st5)"
  then obtain st' where
    s: "setParameters params st = Inr st'"
    and l: "numericalGradients_loop params (length params) 0 (replicate (length params) 0) st' = Inr (g', st5)"
    by (auto simp: numericalGradients_def Let_def split: sum.splits)
  from numericalGradients_loop_counters[OF l] setParameters_counters[OF s]
  show "counters_le st st5"
    by (simp add: counters_le_def)
next
  assume "checkGradient st = Inr (rows, st6)"
  then obtain xOld where
    "checkGradient_loop xOld (length (gradient (model st))) 0 0 (gradient (model st)) [] st
       = Inr (rows, st6)"
    by (auto simp: checkGradient_def Let_def split: sum.splits)
  then show "counters_le st st6"
    by (rule checkGradient_loop_counters)
next
  assume "lineFunction params lambda direction st = Inr (f', st7)"
  then show "counters_le st st7"
    by (rule lineFunction_counters)
next
  assume "bracketMinimum K a b fa params direction st = Some (Inr (br, st8))"
  then show "counters_le st st8"
    by (rule bracketMinimum_counters)
next
  assume "lineMinimiser K fa params direction st = Some (Inr (r, st9))"
  then show "counters_le st st9"
    by (rule lineMinimiser_counters)
qed

text \<open>
  An instance: one objective evaluation and one analytic gradient evaluation from a
  fresh trainer.
\<close>

theorem evaluation_counters_witness:
  "(\<exists>st1. errorFunction [3] (ModelTrainer (example_model [1])) = Inr (9, st1)
         \<and> functionEvaluations st1 = 1 \<and> gradientEvaluations st1 = 0)
   \<and> (\<exists>st2. errorGradients [3] (ModelTrainer (example_model [1])) = Inr ([6], st2)
         \<and> functionEvaluations st2 = 0 \<and> gradientEvaluations st2 = 1)"
proof -
  let ?st = "ModelTrainer (example_model [1])"
  obtain st1 where e1: "errorFunction [3] ?st = Inr (9, st1)"
    by (simp add: errorFunction_def setParameters_def setParametersVector_def objective_def
        example_defs example_objective_def)
  obtain st2 where e2: "errorGradients [3] ?st = Inr ([6], st2)"
    by (simp add: errorGradients_def setParameters_def setParametersVector_def gradient_def
        example_defs example_gradient_def)
  have a: "analyticGradients ?st" and z: "functionEvaluations ?st = 0" "gradientEvaluations ?st = 0"
    by (simp_all add: example_defs)
  from evaluation_counters[where params = "[3]" and st = ?st and f = 9 and ?st1.0 = st1
      and g = "[6]" and ?st2.0 = st2] e1 e2 a z
  have "functionEvaluations st1 = 1 \<and> gradientEvaluations st1 = 0"
    and "functionEvaluations st2 = 0 \<and> gradientEvaluations st2 = 1"
    by simp_all
  with e1 e2 show ?thesis by blast
qed

section \<open>The gradient check\<close>

text \<open>
  Claim C9 says that \<^verbatim>\<open>checkGradient\<close> leaves the model's full parameter vector as it was,
  and that the line of a masked-out index shows zero for both gradients. The second part
  holds in this run; the first does not: the last call of \<^verbatim>\<open>calculateNumericalGradient\<close>
  leaves the last active parameter lowered by \<open>epsilon\<close>, and nothing restores it. With
  the parameters \<open>(1, 3)\<close> and the first one masked out, the model holds
  \<open>(1, 3 - 10\<^sup>-\<^sup>6)\<close> after the check.
\<close>

theorem checkGradient_leaves_model_perturbed:
  "checkGradient (example_masked [False, True] [1, 3]) =
     Inr ([(0, ''x'', 0, 0, 0), (1, '' '', 6, 6, 0)],
          (example_masked [False, True] [1, 2999999 / 1000000])\<lparr>functionEvaluations := 2\<rparr>)
   \<and> parametersVector (model (example_masked [False, True] [1, 3])) = [1, 3]
   \<and> parametersVector (model ((example_masked [False, True] [1, 2999999 / 1000000])
          \<lparr>functionEvaluations := 2\<rparr>)) = [1, 2999999 / 1000000]"
proof -
  let ?st = "example_masked [False, True] [1, 3]"
  have x: "getParameters ?st = Inr [3]"
    by (simp add: example_defs getParameters_def getParametersVector_def getParameters_loop_eq
        eval_nat_numeral)
  have g: "gradient (model ?st) = [2, 6]"
    by (simp add: example_defs gradient_def example_gradient_def)
  have s1: "setParameters [3000001 / 1000000] (?st\<lparr>functionEvaluations := 1\<rparr>) =
      Inr ((example_masked [False, True] [1, 3000001 / 1000000])\<lparr>functionEvaluations := 1\<rparr>)"
    by (simp add: setParameters_def setParametersVector_def getParametersVector_def
        setParameters_loop.simps example_defs)
  have s2: "setParameters [2999999 / 1000000]
      ((example_masked [False, True] [1, 3000001 / 1000000])\<lparr>functionEvaluations := 2\<rparr>) =
      Inr ((example_masked [False, True] [1, 2999999 / 1000000])\<lparr>functionEvaluations := 2\<rparr>)"
    by (simp add: setParameters_def setParametersVector_def getParametersVector_def
        setParameters_loop.simps example_defs)
  have c: "calculateNumericalGradient 0 [3] ?st =
      Inr (6, (example_masked [False, True] [1, 2999999 / 1000000])\<lparr>functionEvaluations := 2\<rparr>)"
    using s1 s2
    by (simp add: calculateNumericalGradient_def vec_get_def vec_set_def errorFunction_def
        objective_def example_defs example_objective_def)
  have "checkGradient_loop [3] (length [2, 6 :: real]) 0 0 [2, 6] [] ?st =
      Inr ([(0, ''x'', 0, 0, 0), (1, '' '', 6, 6, 0)],
           (example_masked [False, True] [1, 2999999 / 1000000])\<lparr>functionEvaluations := 2\<rparr>)"
    using c
    by (simp add: checkGradient_loop.simps vec_get_def vec_set_def gradcheck_row_def example_defs)
  with x g show ?thesis
    by (simp add: checkGradient_def example_defs)
qed

section \<open>Steps of the loop of the line minimiser\<close>

lemma lineMinimiser_loop_converged:
  assumes "n \<le> lineMinimiserIterations st"
    and "lineMinimiser_converged ((ls_br_min s + ls_br_max s) / 2) s st"
  shows "lineMinimiser_loop K params direction n s st =
           Inr ((ls_fx s, ls_x s), st\<lparr>functionValue := ls_fx s\<rparr>)"
  using assms by (subst lineMinimiser_loop.simps) (simp add: Let_def)

lemma lineMinimiser_loop_continues:
  assumes "n \<le> lineMinimiserIterations st"
    and "\<not> lineMinimiser_converged ((ls_br_min s + ls_br_max s) / 2) s st"
    and "lineMinimiser_loop K params direction n s st = Inr (r, st')"
  shows "functionEvaluations st < functionEvaluations st'"
proof -
  let ?xm = "(1 / 2) * (ls_br_min s + ls_br_max s)"
  let ?tol1 = "TOL K * \<bar>ls_x s\<bar> + TINY K"
  from assms obtain s1 st1 where
    i: "lineMinimiser_iteration K params direction ?xm ?tol1 s st = Inr (s1, st1)"
    and l: "lineMinimiser_loop K params direction (n + 1) s1 st1 = Inr (r, st')"
    by (subst (asm) lineMinimiser_loop.simps) (auto simp: Let_def split: sum.splits)
  from i obtain u fu where "lineFunction params u direction st = Inr (fu, st1)"
    unfolding lineMinimiser_iteration_def Let_def
    by (auto split: prod.splits sum.splits)
  from lineFunction_state[OF this] have "functionEvaluations st1 = functionEvaluations st + 1"
    by simp
  with lineMinimiser_loop_counters[OF l] show ?thesis
    by (simp add: counters_le_def)
qed

lemma lineMinimiser_iteration_fits:
  assumes "length params = length direction" and "fits st params"
  shows "\<exists>s'. lineMinimiser_iteration K params direction xm tol1 s st =
           Inr (s', st\<lparr>functionEvaluations := functionEvaluations st + 1\<rparr>)"
  by (simp add: lineMinimiser_iteration_def Let_def lineFunction_fits[OF assms] split: prod.splits)

lemma lineMinimiser_loop_returns:
  assumes "length params = length direction" and "fits st params"
  shows "\<exists>r st'. lineMinimiser_loop K params direction n s st = Inr (r, st')"
  using assms
proof (induction K params direction n s st rule: lineMinimiser_loop.induct)
  case (1 K params direction n s st)
  let ?xm = "(1 / 2) * (ls_br_min s + ls_br_max s)"
  let ?tol1 = "TOL K * \<bar>ls_x s\<bar> + TINY K"
  let ?st1 = "st\<lparr>functionEvaluations := functionEvaluations st + 1\<rparr>"
  show ?case
  proof (cases "n \<le> lineMinimiserIterations st \<and> \<not> lineMinimiser_converged ?xm s st")
    case False
    then show ?thesis
      by (subst lineMinimiser_loop.simps) (auto simp: Let_def)
  next
    case True
    from lineMinimiser_iteration_fits[OF "1.prems", of K ?xm ?tol1 s] obtain s1 where
      i: "lineMinimiser_iteration K params direction ?xm ?tol1 s st = Inr (s1, ?st1)"
      by blast
    from True have "n \<le> lineMinimiserIterations st" and "\<not> lineMinimiser_converged ?xm s st"
      by simp_all
    from "1.IH"[OF this(1) refl refl this(2) i refl "1.prems"(1)] "1.prems"(2)
    obtain r st' where "lineMinimiser_loop K params direction (n + 1) s1 ?st1 = Inr (r, st')"
      by auto
    with True i show ?thesis
      by (subst lineMinimiser_loop.simps) (simp add: Let_def)
  qed
qed

section \<open>Bracketing a minimum\<close>

lemma full_point_functionEvaluations [simp]:
  "full_point (st\<lparr>functionEvaluations := n\<rparr>) p = full_point st p"
  by (simp add: full_point_def)

lemma line_value_functionEvaluations [simp]:
  "line_value (st\<lparr>functionEvaluations := n\<rparr>) param direction lambda
     = line_value st param direction lambda"
  by (simp add: line_value_def)

text \<open>
  Every evaluation of the line function from a state that differs from \<open>st\<close> in the
  counter only returns the value of the line function of \<open>st\<close> and counts one more.
\<close>

lemma lineFunction_at:
  assumes "length params = length direction" and "fits st params"
  shows "lineFunction params t direction (st\<lparr>functionEvaluations := n\<rparr>) =
           Inr (line_value st params direction t, st\<lparr>functionEvaluations := n + 1\<rparr>)"
proof -
  from assms(2) have "fits (st\<lparr>functionEvaluations := n\<rparr>) params" by simp
  from lineFunction_fits[OF assms(1) this, of t] show ?thesis by simp
qed

lemma trainer_functionEvaluations:
  "st = st\<lparr>functionEvaluations := functionEvaluations st\<rparr>"
  by simp

lemma skewed_line_value:
  "line_value (ModelTrainer skewed_model) [0] [1] t = skewed_line t"
  by (simp add: line_value_def full_point_def vec_scale_def ModelTrainer_def skewed_model_def
      skewed_objective_def)

lemma skewed_fits: "fits (ModelTrainer skewed_model) [0]"
  by (simp add: fits_def ModelTrainer_def skewed_model_def)

lemma skewed_lineFunction:
  "lineFunction [0] t [1] ((ModelTrainer skewed_model)\<lparr>functionEvaluations := n\<rparr>) =
     Inr (skewed_line t, (ModelTrainer skewed_model)\<lparr>functionEvaluations := n + 1\<rparr>)"
  using lineFunction_at[of "[0]" "[1]" "ModelTrainer skewed_model" t n]
  by (simp add: skewed_fits skewed_line_value)

lemma skewed_line_strictly_unimodal: "strictly_unimodal skewed_line 4"
  unfolding strictly_unimodal_def
proof (intro conjI allI impI)
  fix x y :: real
  assume "x < y \<and> y \<le> 4"
  then have "0 < (y - x) * (8 - x - y)"
    by (intro mult_pos_pos) simp_all
  also have "(y - x) * (8 - x - y) = (x - 4) ^ 2 - (y - 4) ^ 2"
    by (simp add: power2_eq_square algebra_simps)
  finally show "skewed_line y < skewed_line x"
    using \<open>x < y \<and> y \<le> 4\<close> by (simp add: skewed_line_def)
next
  fix x y :: real
  assume "4 \<le> x \<and> x < y"
  then show "skewed_line x < skewed_line y"
    by (cases "x = 4") (simp_all add: skewed_line_def)
qed

text \<open>
  Claim C1 says that the triple returned for a strictly unimodal line function has its
  lowest value in the middle. The branch of the expansion loop that moves the bracket
  along (lines 433 to 435) shifts \<^verbatim>\<open>b\<close> and \<^verbatim>\<open>c\<close> without their values \<^verbatim>\<open>fb\<close> and \<^verbatim>\<open>fc\<close>,
  so that the next pass compares values of other points. For \<open>skewed_line\<close>, strictly
  unimodal with its minimum at \<open>4\<close>, from \<open>a = 0\<close>, \<open>b = 1\<close> and \<open>fa\<close> the value at \<open>0\<close>, the
  parabola through the first three points has its vertex at \<open>4\<close>; the bracket is moved
  along, the loop goes on with the value at \<open>c\<close> in place of that at \<open>4\<close>, and the next
  pass returns early with \<open>br_min = 4\<close> and a middle point whose value is above that of
  \<open>br_min\<close>.
\<close>

theorem bracketMinimum_invalid_bracket:
  "(case bracketMinimum example_constants 0 1 (skewed_line 0) [0] [1] (ModelTrainer skewed_model) of
      Some (Inr ((br_min, br_mid, br_max), st')) \<Rightarrow>
        br_min = 4 \<and> 5 < br_mid \<and> br_mid < 6 \<and> 6 < br_max
        \<and> skewed_line br_min < skewed_line br_mid
    | _ \<Rightarrow> False)"
proof -
  have "bracketMinimum example_constants 0 1 (skewed_line 0) [0] [1]
          ((ModelTrainer skewed_model)\<lparr>functionEvaluations := 0\<rparr>) =
        Some (Inr ((4, 10627008064511862483418085288766859006743249849630468915931386937499 /
                      1957182539299821257542323423965014817500200000000000000000000000000,
                    623606797749978848023524999 / 100000000000000000000000000),
                   (ModelTrainer skewed_model)\<lparr>functionEvaluations := 5\<rparr>))"
    apply (simp add: bracketMinimum_def skewed_lineFunction example_constants_def skewed_line_def
        split del: if_split)
    apply (subst bracketMinimum_expand.simps)
    apply (simp add: bracketMinimum_trial_def Let_def skewed_lineFunction skewed_line_def
        sign_def x_div_def x_minus_def x_less_def max_step_def power2_eq_square
        split del: if_split)
    apply (subst bracketMinimum_expand.simps)
    apply (simp add: bracketMinimum_trial_def Let_def skewed_lineFunction skewed_line_def
        sign_def x_div_def x_minus_def x_less_def max_step_def power2_eq_square
        split del: if_split)
    done
  moreover have "(ModelTrainer skewed_model)\<lparr>functionEvaluations := 0\<rparr> = ModelTrainer skewed_model"
    by (simp add: ModelTrainer_def)
  ultimately show ?thesis
    by (simp add: skewed_line_def)
qed








lemma x_tests_Finite [simp]:
  "x_positive (x_mult (x_minus s (Finite v)) (x_less (Finite v) t)) = (0 < (s - v) * (v - t))"
  "x_nonnegative (x_mult (x_less (Finite v) t) (Finite w)) = (0 \<le> (v - t) * w)"
  by (simp_all add: x_minus_def x_less_def)

lemma x_tests_PlusInfinity [simp]:
  "\<not> x_positive (x_mult (x_minus s PlusInfinity) (x_less PlusInfinity t))"
  "x_nonnegative (x_mult (x_less PlusInfinity t) (Finite w)) = (0 < w)"
  by (simp_all add: x_minus_def x_less_def)





















section \<open>The convergence test of the line minimiser\<close>

lemma parabola_lineFunction:
  assumes "\<not> maskSet st" and "model st = example_model [0]"
  shows "lineFunction [- 3] t [1] (st\<lparr>functionEvaluations := n\<rparr>) =
           Inr ((t - 3) ^ 2, st\<lparr>functionEvaluations := n + 1\<rparr>)"
proof -
  have len: "length [- 3 :: real] = length [1 :: real]" by simp
  have fits: "fits st [- 3]"
    using assms by (simp add: fits_def example_model_def)
  have "line_value st [- 3] [1] t = (t - 3) ^ 2"
    using assms
    by (simp add: line_value_def full_point_def vec_scale_def example_model_def
        example_objective_def power2_eq_square algebra_simps)
  with lineFunction_at[OF len fits, of t n] show ?thesis by simp
qed

lemma parabola_bracketMinimum:
  assumes "\<not> maskSet st" and "model st = example_model [0]"
  shows "bracketMinimum example_constants 0 1 9 [- 3] [1] (st\<lparr>functionEvaluations := n\<rparr>) =
           Some (Inr ((26180339887499 / 10 ^ 13, 3,
                       361803398874988848023524999 / 10 ^ 26),
                      st\<lparr>functionEvaluations := n + 4\<rparr>))"
  apply (simp add: bracketMinimum_def parabola_lineFunction[OF assms] example_constants_def
      power2_eq_square split del: if_split)
  apply (subst bracketMinimum_expand.simps)
  apply (simp add: bracketMinimum_trial_def Let_def parabola_lineFunction[OF assms]
      sign_def x_div_def x_minus_def x_less_def max_step_def power2_eq_square
      split del: if_split)
  apply (subst bracketMinimum_expand.simps)
  apply (simp add: bracket_exit_def power2_eq_square split del: if_split)
  done

lemma parabola_lineMinimiser:
  assumes "\<not> maskSet st" and "model st = example_model [0]"
  shows "lineMinimiser example_constants 9 [- 3] [1] (st\<lparr>functionEvaluations := n\<rparr>) =
           Some (lineMinimiser_loop example_constants [- 3] [1] 1 parabola_linesearch
                   (st\<lparr>functionEvaluations := n + 5\<rparr>))"
  by (simp add: lineMinimiser_def parabola_bracketMinimum[OF assms]
      parabola_lineFunction[OF assms] parabola_linesearch_def add.commute)

lemma parabola_linesearch_test:
  "\<bar>ls_x parabola_linesearch - (ls_br_min parabola_linesearch + ls_br_max parabola_linesearch) / 2\<bar>
     \<le> 1 \<and>
   ls_br_max parabola_linesearch - ls_br_min parabola_linesearch < 4 * 1 \<and>
   \<not> (\<bar>ls_x parabola_linesearch - (ls_br_min parabola_linesearch + ls_br_max parabola_linesearch) / 2\<bar>
     \<le> 1 / 10 ^ 4 \<and>
   ls_br_max parabola_linesearch - ls_br_min parabola_linesearch < 4 * (1 / 10 ^ 4))"
  by (simp add: parabola_linesearch_def)


lemma lineMinimiser_loop_step:
  assumes "n \<le> lineMinimiserIterations st"
    and "\<not> lineMinimiser_converged ((ls_br_min s + ls_br_max s) / 2) s st"
  shows "lineMinimiser_loop K params direction n s st =
           (case lineMinimiser_iteration K params direction ((ls_br_min s + ls_br_max s) / 2)
                   (TOL K * \<bar>ls_x s\<bar> + TINY K) s st of
              Inl err \<Rightarrow> Inl err
            | Inr (s', st') \<Rightarrow> lineMinimiser_loop K params direction (n + 1) s' st')"
  using assms by (subst lineMinimiser_loop.simps) (simp add: Let_def)

lemma lineMinimiser_loop_exhausted:
  assumes "\<not> n \<le> lineMinimiserIterations st"
  shows "lineMinimiser_loop K params direction n s st = Inr ((ls_fx s, ls_x s), st)"
  using assms by (subst lineMinimiser_loop.simps) simp

lemma lineMinimiser_iteration_state:
  assumes "lineMinimiser_iteration K params direction xm tol1 s st = Inr (s', st')"
  shows "st' = st\<lparr>functionEvaluations := functionEvaluations st + 1\<rparr>"
proof -
  from assms obtain u fu where "lineFunction params u direction st = Inr (fu, st')"
    unfolding lineMinimiser_iteration_def Let_def
    by (auto split: prod.splits sum.splits)
  then show ?thesis by (rule lineFunction_state)
qed

text \<open>
  Claim C2 says that the test of an iteration compares with the trainer's
  \<^verbatim>\<open>parameterTolerance\<close>. The code compares with \<^verbatim>\<open>lineMinimiserParameterTolerance\<close>, a
  member of its own. Take the line function \<open>(t - 3)\<^sup>2\<close> and a trainer with
  \<^verbatim>\<open>parameterTolerance = 1\<close>, everything else as constructed. \<^verbatim>\<open>lineMinimiser\<close> enters
  its loop with the bracket \<open>[2.618.., 3.618..]\<close> around \<open>x = 3\<close>, after five evaluations.
  There the test of the claim holds (\<open>|x - xm| = 0.118.. \<le> 1\<close>, width \<open>1 < 4\<close>), but the
  loop does not stop with \<open>fx\<close> reported.
\<close>

theorem lineMinimiser_tolerance_counterexample:
  "lineMinimiser example_constants 9 [- 3] [1]
       ((ModelTrainer (example_model [0]))\<lparr>parameterTolerance := 1\<rparr>)
     = Some (lineMinimiser_loop example_constants [- 3] [1] 1 parabola_linesearch
               ((ModelTrainer (example_model [0]))
                  \<lparr>parameterTolerance := 1, functionEvaluations := 5\<rparr>))
   \<and> \<bar>ls_x parabola_linesearch - (ls_br_min parabola_linesearch + ls_br_max parabola_linesearch) / 2\<bar>
      \<le> parameterTolerance ((ModelTrainer (example_model [0]))
                               \<lparr>parameterTolerance := 1, functionEvaluations := 5\<rparr>)
   \<and> ls_br_max parabola_linesearch - ls_br_min parabola_linesearch
      < 4 * parameterTolerance ((ModelTrainer (example_model [0]))
                                  \<lparr>parameterTolerance := 1, functionEvaluations := 5\<rparr>)
   \<and> lineMinimiser_loop example_constants [- 3] [1] 1 parabola_linesearch
         ((ModelTrainer (example_model [0]))\<lparr>parameterTolerance := 1, functionEvaluations := 5\<rparr>)
       \<noteq> Inr ((ls_fx parabola_linesearch, ls_x parabola_linesearch),
              (ModelTrainer (example_model [0]))
                \<lparr>parameterTolerance := 1, functionEvaluations := 5,
                 functionValue := ls_fx parabola_linesearch\<rparr>)"
proof (intro conjI notI)
  let ?init = "(ModelTrainer (example_model [0]))\<lparr>parameterTolerance := 1\<rparr>"
  let ?st = "(ModelTrainer (example_model [0]))\<lparr>parameterTolerance := 1, functionEvaluations := 5\<rparr>"
  have "\<not> maskSet ?init" and "model ?init = example_model [0]"
    by (simp_all add: ModelTrainer_def)
  from parabola_lineMinimiser[OF this, of 0]
  show "lineMinimiser example_constants 9 [- 3] [1] ?init
     = Some (lineMinimiser_loop example_constants [- 3] [1] 1 parabola_linesearch ?st)"
    by (simp add: ModelTrainer_def)
  from parabola_linesearch_test
  show "\<bar>ls_x parabola_linesearch - (ls_br_min parabola_linesearch + ls_br_max parabola_linesearch) / 2\<bar>
      \<le> parameterTolerance ?st"
    and "ls_br_max parabola_linesearch - ls_br_min parabola_linesearch < 4 * parameterTolerance ?st"
    by simp_all
  assume stop: "lineMinimiser_loop example_constants [- 3] [1] 1 parabola_linesearch ?st
       = Inr ((ls_fx parabola_linesearch, ls_x parabola_linesearch),
              ?st\<lparr>functionValue := ls_fx parabola_linesearch\<rparr>)"
  have "1 \<le> lineMinimiserIterations ?st"
    by (simp add: ModelTrainer_def)
  moreover from parabola_linesearch_test have "\<not> lineMinimiser_converged
      ((ls_br_min parabola_linesearch + ls_br_max parabola_linesearch) / 2) parabola_linesearch ?st"
    by (simp add: lineMinimiser_converged_def ModelTrainer_def)
  ultimately have "functionEvaluations ?st
      < functionEvaluations (?st\<lparr>functionValue := ls_fx parabola_linesearch\<rparr>)"
    using stop by (rule lineMinimiser_loop_continues)
  then show False by simp
qed

text \<open>
  Claim C2, amended. Let \<open>xm\<close> be the midpoint of the bracket and let the test be
  \<open>|x - xm| \<le> lineMinimiserParameterTolerance\<close> and
  \<open>br_max - br_min < 4 * lineMinimiserParameterTolerance\<close>. In an iteration \<open>n\<close> within
  the cap the loop stops and stores \<open>fx\<close> in \<^verbatim>\<open>functionValue\<close> exactly when the test
  holds, nothing else in the state changing. When the test fails the loop does the
  step of this iteration and goes on with iteration \<open>n + 1\<close> (or fails with the error
  of the step); the step evaluates the line function once and changes nothing else in
  the trainer, so no value is reported in this iteration, and whatever the loop
  returns later, the line function has been evaluated again. Once \<open>n\<close> is over the cap
  the loop returns \<open>(fx, x)\<close> and reports nothing.
\<close>

theorem lineMinimiser_convergence_test:
  "(n \<le> lineMinimiserIterations st
      \<and> (\<bar>ls_x s - (ls_br_min s + ls_br_max s) / 2\<bar> \<le> lineMinimiserParameterTolerance st
         \<and> ls_br_max s - ls_br_min s < 4 * lineMinimiserParameterTolerance st)
    \<longrightarrow> lineMinimiser_loop K params direction n s st =
          Inr ((ls_fx s, ls_x s), st\<lparr>functionValue := ls_fx s\<rparr>))
   \<and> (n \<le> lineMinimiserIterations st
      \<and> \<not> (\<bar>ls_x s - (ls_br_min s + ls_br_max s) / 2\<bar> \<le> lineMinimiserParameterTolerance st
           \<and> ls_br_max s - ls_br_min s < 4 * lineMinimiserParameterTolerance st)
    \<longrightarrow> lineMinimiser_loop K params direction n s st =
          (case lineMinimiser_iteration K params direction ((ls_br_min s + ls_br_max s) / 2)
                  (TOL K * \<bar>ls_x s\<bar> + TINY K) s st of
             Inl err \<Rightarrow> Inl err
           | Inr (s', st') \<Rightarrow> lineMinimiser_loop K params direction (n + 1) s' st')
        \<and> (\<forall>s' st'. lineMinimiser_iteration K params direction ((ls_br_min s + ls_br_max s) / 2)
                        (TOL K * \<bar>ls_x s\<bar> + TINY K) s st = Inr (s', st')
             \<longrightarrow> st' = st\<lparr>functionEvaluations := functionEvaluations st + 1\<rparr>)
        \<and> (\<forall>r st'. lineMinimiser_loop K params direction n s st = Inr (r, st')
             \<longrightarrow> functionEvaluations st < functionEvaluations st'))
   \<and> (\<not> n \<le> lineMinimiserIterations st
    \<longrightarrow> lineMinimiser_loop K params direction n s st = Inr ((ls_fx s, ls_x s), st))"
proof (intro conjI impI allI)
  assume "n \<le> lineMinimiserIterations st
      \<and> (\<bar>ls_x s - (ls_br_min s + ls_br_max s) / 2\<bar> \<le> lineMinimiserParameterTolerance st
         \<and> ls_br_max s - ls_br_min s < 4 * lineMinimiserParameterTolerance st)"
  then have "n \<le> lineMinimiserIterations st"
    and "lineMinimiser_converged ((ls_br_min s + ls_br_max s) / 2) s st"
    by (simp_all add: lineMinimiser_converged_def)
  then show "lineMinimiser_loop K params direction n s st =
                Inr ((ls_fx s, ls_x s), st\<lparr>functionValue := ls_fx s\<rparr>)"
    by (rule lineMinimiser_loop_converged)
next
  assume "n \<le> lineMinimiserIterations st
      \<and> \<not> (\<bar>ls_x s - (ls_br_min s + ls_br_max s) / 2\<bar> \<le> lineMinimiserParameterTolerance st
           \<and> ls_br_max s - ls_br_min s < 4 * lineMinimiserParameterTolerance st)"
  then have cap: "n \<le> lineMinimiserIterations st"
    and test: "\<not> lineMinimiser_converged ((ls_br_min s + ls_br_max s) / 2) s st"
    by (simp_all add: lineMinimiser_converged_def)
  from cap test show "lineMinimiser_loop K params direction n s st =
          (case lineMinimiser_iteration K params direction ((ls_br_min s + ls_br_max s) / 2)
                  (TOL K * \<bar>ls_x s\<bar> + TINY K) s st of
             Inl err \<Rightarrow> Inl err
           | Inr (s', st') \<Rightarrow> lineMinimiser_loop K params direction (n + 1) s' st')"
    by (rule lineMinimiser_loop_step)
  {
    fix s' st'
    assume "lineMinimiser_iteration K params direction ((ls_br_min s + ls_br_max s) / 2)
              (TOL K * \<bar>ls_x s\<bar> + TINY K) s st = Inr (s', st')"
    then show "st' = st\<lparr>functionEvaluations := functionEvaluations st + 1\<rparr>"
      by (rule lineMinimiser_iteration_state)
  }
  {
    fix r st'
    assume "lineMinimiser_loop K params direction n s st = Inr (r, st')"
    with cap test show "functionEvaluations st < functionEvaluations st'"
      by (rule lineMinimiser_loop_continues)
  }
next
  assume "\<not> n \<le> lineMinimiserIterations st"
  then show "lineMinimiser_loop K params direction n s st = Inr ((ls_fx s, ls_x s), st)"
    by (rule lineMinimiser_loop_exhausted)
qed

text \<open>
  Three instances on the line function \<open>(t - 3)\<^sup>2\<close>, at the state in which
  \<^verbatim>\<open>lineMinimiser\<close> enters its loop. With \<^verbatim>\<open>lineMinimiserParameterTolerance = 1\<close> the
  test holds in iteration 1: \<^verbatim>\<open>lineMinimiser\<close> returns \<open>(0, 3)\<close> after the five
  evaluations made before the loop, with \<open>fx = 0\<close> reported. With the default
  \<open>10\<^sup>-\<^sup>4\<close> the test fails: iteration 1 makes the sixth evaluation and the loop goes on
  with iteration 2. In iteration 11, over the default cap of 10, the loop returns
  \<open>(0, 3)\<close> with the trainer as it is.
\<close>

theorem lineMinimiser_convergence_test_witness:
  "lineMinimiser example_constants 9 [- 3] [1]
       ((ModelTrainer (example_model [0]))\<lparr>lineMinimiserParameterTolerance := 1\<rparr>)
     = Some (Inr ((0, 3),
                  (ModelTrainer (example_model [0]))
                    \<lparr>lineMinimiserParameterTolerance := 1, functionEvaluations := 5,
                     functionValue := 0\<rparr>))
   \<and> (\<exists>s'. lineMinimiser_loop example_constants [- 3] [1] 1 parabola_linesearch
                ((ModelTrainer (example_model [0]))\<lparr>functionEvaluations := 5\<rparr>)
              = lineMinimiser_loop example_constants [- 3] [1] 2 s'
                  ((ModelTrainer (example_model [0]))\<lparr>functionEvaluations := 6\<rparr>))
   \<and> lineMinimiser_loop example_constants [- 3] [1] 11 parabola_linesearch
         ((ModelTrainer (example_model [0]))\<lparr>functionEvaluations := 5\<rparr>)
       = Inr ((0, 3), (ModelTrainer (example_model [0]))\<lparr>functionEvaluations := 5\<rparr>)"
proof (intro conjI)
  let ?init = "(ModelTrainer (example_model [0]))\<lparr>lineMinimiserParameterTolerance := 1\<rparr>"
  let ?tolerant = "(ModelTrainer (example_model [0]))
      \<lparr>lineMinimiserParameterTolerance := 1, functionEvaluations := 5\<rparr>"
  let ?default = "(ModelTrainer (example_model [0]))\<lparr>functionEvaluations := 5\<rparr>"
  let ?xm = "(ls_br_min parabola_linesearch + ls_br_max parabola_linesearch) / 2"
  let ?tol1 = "TOL example_constants * \<bar>ls_x parabola_linesearch\<bar> + TINY example_constants"
  have "\<not> maskSet ?init" and "model ?init = example_model [0]"
    by (simp_all add: ModelTrainer_def)
  from parabola_lineMinimiser[OF this, of 0]
  have entry: "lineMinimiser example_constants 9 [- 3] [1] ?init
     = Some (lineMinimiser_loop example_constants [- 3] [1] 1 parabola_linesearch ?tolerant)"
    by (simp add: ModelTrainer_def)
  have "1 \<le> lineMinimiserIterations ?tolerant"
    and "lineMinimiserParameterTolerance ?tolerant = 1"
    by (simp_all add: ModelTrainer_def)
  with lineMinimiser_convergence_test[of 1 ?tolerant parabola_linesearch
      example_constants "[- 3]" "[1]"] parabola_linesearch_test
  have "lineMinimiser_loop example_constants [- 3] [1] 1 parabola_linesearch ?tolerant
     = Inr ((ls_fx parabola_linesearch, ls_x parabola_linesearch),
            ?tolerant\<lparr>functionValue := ls_fx parabola_linesearch\<rparr>)"
    by simp
  with entry show "lineMinimiser example_constants 9 [- 3] [1] ?init
     = Some (Inr ((0, 3),
                  (ModelTrainer (example_model [0]))
                    \<lparr>lineMinimiserParameterTolerance := 1, functionEvaluations := 5,
                     functionValue := 0\<rparr>))"
    by (simp add: parabola_linesearch_def)
next
  let ?default = "(ModelTrainer (example_model [0]))\<lparr>functionEvaluations := 5\<rparr>"
  let ?xm = "(ls_br_min parabola_linesearch + ls_br_max parabola_linesearch) / 2"
  let ?tol1 = "TOL example_constants * \<bar>ls_x parabola_linesearch\<bar> + TINY example_constants"
  have "length [- 3 :: real] = length [1 :: real]" and "fits ?default [- 3]"
    by (simp_all add: fits_def example_defs)
  from lineMinimiser_iteration_fits[OF this, of example_constants ?xm ?tol1 parabola_linesearch]
  obtain s' where step: "lineMinimiser_iteration example_constants [- 3] [1] ?xm ?tol1
      parabola_linesearch ?default
        = Inr (s', (ModelTrainer (example_model [0]))\<lparr>functionEvaluations := 6\<rparr>)"
    by auto
  have "1 \<le> lineMinimiserIterations ?default"
    and "lineMinimiserParameterTolerance ?default = 1 / 10 ^ 4"
    by (simp_all add: ModelTrainer_def)
  with lineMinimiser_convergence_test[of 1 ?default parabola_linesearch
      example_constants "[- 3]" "[1]"] parabola_linesearch_test
  have "lineMinimiser_loop example_constants [- 3] [1] 1 parabola_linesearch ?default =
          (case lineMinimiser_iteration example_constants [- 3] [1] ?xm ?tol1
                  parabola_linesearch ?default of
             Inl err \<Rightarrow> Inl err
           | Inr (s', st') \<Rightarrow> lineMinimiser_loop example_constants [- 3] [1] (1 + 1) s' st')"
    by simp
  with step have "lineMinimiser_loop example_constants [- 3] [1] 1 parabola_linesearch ?default
      = lineMinimiser_loop example_constants [- 3] [1] 2 s'
          ((ModelTrainer (example_model [0]))\<lparr>functionEvaluations := 6\<rparr>)"
    by simp
  then show "\<exists>s'. lineMinimiser_loop example_constants [- 3] [1] 1 parabola_linesearch ?default
      = lineMinimiser_loop example_constants [- 3] [1] 2 s'
          ((ModelTrainer (example_model [0]))\<lparr>functionEvaluations := 6\<rparr>)"
    by blast
next
  let ?default = "(ModelTrainer (example_model [0]))\<lparr>functionEvaluations := 5\<rparr>"
  have "\<not> 11 \<le> lineMinimiserIterations ?default"
    by (simp add: ModelTrainer_def)
  with lineMinimiser_convergence_test[of 11 ?default parabola_linesearch
      example_constants "[- 3]" "[1]"]
  have "lineMinimiser_loop example_constants [- 3] [1] 11 parabola_linesearch ?default
      = Inr ((ls_fx parabola_linesearch, ls_x parabola_linesearch), ?default)"
    by simp
  then show "lineMinimiser_loop example_constants [- 3] [1] 11 parabola_linesearch ?default
       = Inr ((0, 3), ?default)"
    by (simp add: parabola_linesearch_def)
qed

end
